theory Spec2Isabelle
  imports Complex_Main
begin

section \<open>Data model\<close>

text \<open>
  The repository holds five variants of one WhatsApp bot (file \<open>index.js\<close>):
  \<^item> \<open>telao3\<close>: \<open>src/telao3/index.js\<close>;
  \<^item> \<open>legacy\<close>: \<open>src/unnamed/part_000\<close>;
  \<^item> \<open>md1\<close>: \<open>src/unnamed/part_001\<close>, lines 1--321 (cached group warm-up);
  \<^item> \<open>md2\<close>: \<open>src/unnamed/part_001\<close>, lines 322--595 (uncached group warm-up);
  \<^item> \<open>final\<close>: \<open>src/unnamed/part_001\<close>, lines 596--1054 (reconnect counter and backoff).
  Where the variants differ, a definition carries the variant's name as a suffix.

  A JavaScript string is a sequence of UTF-16 code units; \<open>js\<close> turns an ASCII literal
  into one. Conversation identifiers (JIDs) are strings too.
\<close>

type_synonym jsstring = "nat list"
type_synonym jid = jsstring

definition js :: "string \<Rightarrow> jsstring" where
  "js s = map of_char s"

text \<open>A message payload \<open>{ text: ... }\<close>; any other payload shape is \<open>Media\<close>.\<close>

datatype payload = Text jsstring | Media

text \<open>
  The fixed reply texts of the source, code unit by code unit: the cross mark is U+274C,
  the hourglass U+23F3, the check mark U+2705, the lock a surrogate pair for U+1F510,
  c-cedilla is 231 and a-tilde 227.
\<close>

definition processing_error_text :: payload where
  "processing_error_text =
     Text ([10060, 32] @ js ''Ocorreu um erro ao processar sua solicita'' @ [231, 227] @ js ''o.'')"

definition bot_starting_text_telao3 :: payload where
  "bot_starting_text_telao3 =
     Text ([9203, 32] @ js ''Bot iniciando, sua mensagem ser'' @ [225] @ js '' processada em breve.'')"

definition bot_starting_text :: payload where
  "bot_starting_text = Text ([9203, 32] @ js ''Bot iniciando, aguarde...'')"

definition group_init_text :: payload where
  "group_init_text = Text ([55357, 56592, 32] @ js ''Inicializando grupo...'')"


text \<open>The imported handlers, and the two ways \<open>handleTabela\<close> is called.\<close>

datatype handler =
    AntiLinkMessage | ComprovanteFoto | MensagemPix
  | Compra2 | Listar | Remove | Ban | Pagamento | Grupo | Compra | Concorrer
  | Tabela | TabelaTextOnly | Todos | Message

text \<open>
  Everything the program does to the outside is recorded, in order, in a trace:
  a call of \<open>sock.sendMessage\<close> with its outcome (\<open>True\<close>: the promise resolved), a
  handler call, a line of \<open>console.error\<close>/\<open>console.warn\<close> written by a catch block, the
  printed QR code, \<open>setTimeout(() => iniciarBot(...), delay)\<close>, \<open>process.exit(code)\<close>,
  the removal of the local credential folder and an upload of it.
\<close>

datatype effect =
    Send jid payload bool
  | Invoke handler
  | LogError
  | PrintQR
  | Restart rat
  | Exit int
  | RemoveAuth
  | SyncToSupabase

text \<open>
  The module-level variables (\<open>pendingMessages\<close>, \<open>authReady\<close>, \<open>qrSent\<close>,
  \<open>reconnectAttempts\<close>), the two caches that \<open>iniciarBot\<close> creates for its session
  instance (\<open>senderReadyGroups\<close>, \<open>senderAttemptAt\<close>), whether the local credential folder
  holds files, the exit code once the process has exited, and the trace.
\<close>

record bot =
  pendingMessages :: "(jid \<times> payload) list"
  authReady :: bool
  qrSent :: bool
  reconnectAttempts :: nat
  senderReadyGroups :: "jid set"
  senderAttemptAt :: "jid \<Rightarrow> int option"
  localCreds :: bool
  exited :: "int option"
  trace :: "effect list"

text \<open>
  What the program cannot decide itself: whether the next \<open>sock.sendMessage\<close> resolves
  (asked at the current length of the trace, so every call may differ), whether a handler
  throws, whether \<open>QRCode.toDataURL\<close> resolves, and what the remote store lists.
\<close>

datatype remote = RemoteError | RemoteEmpty | RemoteFiles

record env =
  net :: "nat \<Rightarrow> bool"
  throws :: "handler \<Rightarrow> bool"
  qrRenders :: bool
  store :: remote

definition initial :: bot where
  "initial = \<lparr> pendingMessages = [], authReady = False, qrSent = False,
     reconnectAttempts = 0, senderReadyGroups = {}, senderAttemptAt = (\<lambda>_. None),
     localCreds = False, exited = None, trace = [] \<rparr>"

section \<open>Pending delivery queue\<close>

text \<open>\<open>await sock.sendMessage(jid, msg)\<close>: the call is recorded with its outcome.\<close>

definition sendMessage :: "env \<Rightarrow> jid \<Rightarrow> payload \<Rightarrow> bot \<Rightarrow> bot \<times> bool" where
  "sendMessage e j m s =
     (let ok = net e (length (trace s)) in (s\<lparr>trace := trace s @ [Send j m ok]\<rparr>, ok))"

text \<open>\<open>pendingMessages.push({ jid, msg })\<close>.\<close>

definition enqueue :: "jid \<times> payload \<Rightarrow> bot \<Rightarrow> bot" where
  "enqueue p s = s\<lparr>pendingMessages := pendingMessages s @ [p]\<rparr>"

text \<open>
  The body of the loop of \<open>processPendingMessages\<close>: \<open>try { await sock.sendMessage(jid, msg) }
  catch (e) { console.error(...) }\<close>.
\<close>

definition resend :: "env \<Rightarrow> jid \<times> payload \<Rightarrow> bot \<Rightarrow> bot" where
  "resend e p s =
     (case sendMessage e (fst p) (snd p) s of
        (s', ok) \<Rightarrow> if ok then s' else s'\<lparr>trace := trace s' @ [LogError]\<rparr>)"

text \<open>\<open>for (const { jid, msg } of pendingMessages) ...\<close>\<close>

fun resend_all :: "env \<Rightarrow> (jid \<times> payload) list \<Rightarrow> bot \<Rightarrow> bot" where
  "resend_all e [] s = s"
| "resend_all e (p # ps) s = resend_all e ps (resend e p s)"

text \<open>\<open>processPendingMessages\<close> of telao3, legacy, md1 and md2: the loop, then \<open>pendingMessages = []\<close>.\<close>

definition processPendingMessages :: "env \<Rightarrow> bot \<Rightarrow> bot" where
  "processPendingMessages e s = (resend_all e (pendingMessages s) s)\<lparr>pendingMessages := []\<rparr>"

text \<open>\<open>processPendingMessages\<close> of the final variant: the same under \<open>if (pendingMessages.length > 0)\<close>.\<close>

definition processPendingMessages_final :: "env \<Rightarrow> bot \<Rightarrow> bot" where
  "processPendingMessages_final e s =
     (if length (pendingMessages s) > 0
      then (resend_all e (pendingMessages s) s)\<lparr>pendingMessages := []\<rparr>
      else s)"

text \<open>The delivery attempts of a trace, in the order they were made.\<close>

fun attempts :: "effect list \<Rightarrow> (jid \<times> payload) list" where
  "attempts [] = []"
| "attempts (Send j m ok # es) = (j, m) # attempts es"
| "attempts (_ # es) = attempts es"

section \<open>Strings\<close>

text \<open>\<open>s.startsWith(p)\<close> and \<open>s.endsWith(p)\<close>.\<close>

definition startsWith :: "jsstring \<Rightarrow> jsstring \<Rightarrow> bool" where
  "startsWith s p = (take (length p) s = p)"

definition endsWith :: "jsstring \<Rightarrow> jsstring \<Rightarrow> bool" where
  "endsWith s p = (length p \<le> length s \<and> drop (length s - length p) s = p)"

definition is_group :: "jid \<Rightarrow> bool" where
  "is_group j = endsWith j (js ''@g.us'')"

text \<open>
  A message as the handlers read it: \<open>msg.key.remoteJid\<close>, \<open>msg.key.fromMe\<close>, the three
  places a text can stand in (\<open>None\<close> when the field is absent) and whether
  \<open>msg.message.imageMessage\<close> is there.
\<close>

record msg =
  remoteJid :: jid
  fromMe :: bool
  conversation :: "jsstring option"
  extendedText :: "jsstring option"
  plainText :: "jsstring option"
  imageMessage :: bool

text \<open>
  \<open>a || b || c || ""\<close> on strings that may be absent: the first operand that is a
  non-empty string, and the empty string when there is none.
\<close>

fun first_truthy :: "jsstring option list \<Rightarrow> jsstring" where
  "first_truthy [] = []"
| "first_truthy (None # r) = first_truthy r"
| "first_truthy (Some [] # r) = first_truthy r"
| "first_truthy (Some (c # cs) # r) = c # cs"

text \<open>
  \<open>.replace(/[...]/g, "")\<close>, the character class being U+200E, U+200F, U+2068 and
  U+2069: every such code unit is removed.
\<close>

definition strip_marks :: "jsstring \<Rightarrow> jsstring" where
  "strip_marks s = filter (\<lambda>c. c \<notin> {8206, 8207, 8296, 8297}) s"

text \<open>\<open>.trim()\<close> removes the white space and line terminators of ECMAScript at both ends.\<close>

definition is_space :: "nat \<Rightarrow> bool" where
  "is_space c = (c \<in> {9, 10, 11, 12, 13, 32, 160, 5760, 8232, 8233, 8239, 8287, 12288, 65279}
                 \<or> (8192 \<le> c \<and> c \<le> 8202))"

definition trim :: "jsstring \<Rightarrow> jsstring" where
  "trim s = rev (dropWhile is_space (rev (dropWhile is_space s)))"

text \<open>
  \<open>.toLowerCase()\<close>, on the letters A to Z. The model leaves every other code unit as it
  is, which is what JavaScript does for all ASCII text; the command table is ASCII.
\<close>

definition lower_unit :: "nat \<Rightarrow> nat" where
  "lower_unit c = (if 65 \<le> c \<and> c \<le> 90 then c + 32 else c)"

definition toLowerCase :: "jsstring \<Rightarrow> jsstring" where
  "toLowerCase s = map lower_unit s"

definition messageText :: "msg \<Rightarrow> jsstring" where
  "messageText m = trim (strip_marks (first_truthy [conversation m, extendedText m, plainText m]))"

definition lowerText :: "msg \<Rightarrow> jsstring" where
  "lowerText m = toLowerCase (messageText m)"

section \<open>Command router\<close>

text \<open>
  The chain of \<open>if\<close>/\<open>else if\<close> of \<open>processMessage\<close>, the same in every variant: the
  handler the first matching test picks, if any.
\<close>

definition route :: "jsstring \<Rightarrow> jid \<Rightarrow> handler option" where
  "route t senderJid =
     (if startsWith t (js ''.compra'') then Some Compra2
      else if t = js ''@concorrentes'' then Some Listar
      else if startsWith t (js ''@remove'') \<or> startsWith t (js ''/remove'') then Some Remove
      else if startsWith t (js ''@ban'') \<or> startsWith t (js ''/ban'') then Some Ban
      else if t = js ''@pagamentos'' then Some Pagamento
      else if t \<in> set [js ''@grupo on'', js ''@grupo off''] then Some Grupo
      else if startsWith t (js ''@compra'') \<or> startsWith t (js ''@rentanas'')
              \<or> startsWith t (js ''@remove rentanas'') then Some Compra
      else if is_group senderJid \<and> t = js ''@concorrencia'' then Some Concorrer
      else if t = js ''@tabela'' then Some Tabela
      else if t = js ''@todos'' then Some Todos
      else if startsWith t (js ''@'') \<or> startsWith t (js ''/'') then Some Message
      else if t \<in> set [js ''.n'', js ''.t'', js ''.i'', js ''.s''] then Some Tabela
      else None)"

section \<open>Awaited calls that may throw\<close>

text \<open>
  A piece of an async function is a state transformer that also says whether it threw
  (\<open>True\<close>). \<open>and_then\<close> is sequencing: what follows a throw is not run. \<open>try_catch\<close> runs
  the catch block on a throw.
\<close>

type_synonym prog = "bot \<Rightarrow> bot \<times> bool"

definition no_op :: prog where
  "no_op s = (s, False)"

definition and_then :: "prog \<Rightarrow> prog \<Rightarrow> prog" where
  "and_then p q s = (case p s of (s', threw) \<Rightarrow> if threw then (s', True) else q s')"

definition try_catch :: "prog \<Rightarrow> prog \<Rightarrow> prog" where
  "try_catch p c s = (case p s of (s', threw) \<Rightarrow> if threw then c s' else (s', False))"

definition log_error :: prog where
  "log_error s = (s\<lparr>trace := trace s @ [LogError]\<rparr>, False)"

text \<open>\<open>await handleX(sock, msg)\<close>\<close>

definition invoke :: "env \<Rightarrow> handler \<Rightarrow> prog" where
  "invoke e h s = (s\<lparr>trace := trace s @ [Invoke h]\<rparr>, throws e h)"

section \<open>Group readiness cache\<close>

definition SENDER_COOLDOWN_MS :: int where
  "SENDER_COOLDOWN_MS = 60 * 1000"


text \<open>
  \<open>ensureGroupReady\<close> of md1 and final (cache and cooldown); \<open>now\<close> is what \<open>Date.now()\<close>
  returns, \<open>senderAttemptAt.get(groupId) || 0\<close> is 0 for a group never tried.

  The function has one \<open>await\<close>, on the warm-up send, and \<open>messages.upsert\<close> of md1 and
  final starts \<open>processMessage\<close> without awaiting it, so another call can run while a
  warm-up is in flight. The model therefore has the two halves of a call. The first half
  runs up to the \<open>await\<close>: it returns at once, or it has stored the time in
  \<open>senderAttemptAt\<close> and issued the send (the trace records the call together with the
  way it will settle). The second half runs when the send has settled: it marks the
  group ready and returns true, or logs and returns false.
\<close>

definition lastAttempt :: "bot \<Rightarrow> jid \<Rightarrow> int" where
  "lastAttempt s groupId = (case senderAttemptAt s groupId of None \<Rightarrow> 0 | Some t \<Rightarrow> t)"

datatype ensure_outcome = Returned bool | Awaiting bool

definition ensureGroupReady_begin :: "env \<Rightarrow> int \<Rightarrow> jid \<Rightarrow> bot \<Rightarrow> bot \<times> ensure_outcome" where
  "ensureGroupReady_begin e now groupId s =
     (if groupId = [] \<or> \<not> is_group groupId then (s, Returned True)
      else if groupId \<in> senderReadyGroups s then (s, Returned True)
      else if now - lastAttempt s groupId < SENDER_COOLDOWN_MS then (s, Returned False)
      else case sendMessage e groupId group_init_text
                  (s\<lparr>senderAttemptAt := (senderAttemptAt s)(groupId \<mapsto> now)\<rparr>) of
        (s', ok) \<Rightarrow> (s', Awaiting ok))"

definition ensureGroupReady_finish :: "jid \<Rightarrow> bool \<Rightarrow> bot \<Rightarrow> bot \<times> bool" where
  "ensureGroupReady_finish groupId ok s =
     (if ok then (s\<lparr>senderReadyGroups := insert groupId (senderReadyGroups s)\<rparr>, True)
      else (s\<lparr>trace := trace s @ [LogError]\<rparr>, False))"

text \<open>
  A call that nothing interrupts: the second half follows the first at once. This is the
  call as \<open>processMessage\<close> makes it when each message is handled to its end before the
  next one starts; overlapping calls are the runs of \<open>cache_step\<close> below.
\<close>

definition ensureGroupReady :: "env \<Rightarrow> int \<Rightarrow> jid \<Rightarrow> bot \<Rightarrow> bot \<times> bool" where
  "ensureGroupReady e now groupId s =
     (case ensureGroupReady_begin e now groupId s of
        (s', Returned r) \<Rightarrow> (s', r)
      | (s', Awaiting ok) \<Rightarrow> ensureGroupReady_finish groupId ok s')"









section \<open>Processing one message\<close>

text \<open>The start of the outer \<open>try\<close> block, the same in every variant.\<close>

definition side_checks :: "env \<Rightarrow> msg \<Rightarrow> prog" where
  "side_checks e m =
     and_then (if imageMessage m \<and> is_group (remoteJid m) then invoke e ComprovanteFoto else no_op)
              (invoke e MensagemPix)"

definition dispatch :: "env \<Rightarrow> msg \<Rightarrow> prog" where
  "dispatch e m =
     (case route (lowerText m) (remoteJid m) of None \<Rightarrow> no_op | Some h \<Rightarrow> invoke e h)"

text \<open>
  The catch block of telao3, legacy, md1 and md2: log, then push the error reply onto
  \<open>pendingMessages\<close>.
\<close>

definition report_error_telao3 :: "jid \<Rightarrow> prog" where
  "report_error_telao3 senderJid =
     and_then log_error (\<lambda>s. (enqueue (senderJid, processing_error_text) s, False))"

text \<open>
  \<open>processMessage\<close> of telao3 (and of legacy): the anti-link check in a \<open>try\<close> of its own,
  then the side checks and the command in one \<open>try\<close> with the catch block above.
\<close>

definition processMessage_telao3 :: "env \<Rightarrow> msg \<Rightarrow> prog" where
  "processMessage_telao3 e m =
     and_then (try_catch (invoke e AntiLinkMessage) log_error)
       (try_catch (and_then (side_checks e m) (dispatch e m)) (report_error_telao3 (remoteJid m)))"

text \<open>
  The fallback of md1 and final for a group that is not ready and a message asking for
  the table: \<open>handleTabela\<close> with \<open>fallbackTextOnly\<close>, on a throw \<open>handleTabela\<close> without it,
  on a second throw one logged line; then \<open>return\<close>.
\<close>

definition tabela_like :: "jsstring \<Rightarrow> bool" where
  "tabela_like t = (t = js ''@tabela'' \<or> t \<in> set [js ''.t'', js ''.n'', js ''.i'', js ''.s''])"

definition tabela_fallback :: "env \<Rightarrow> prog" where
  "tabela_fallback e = try_catch (invoke e TabelaTextOnly) (try_catch (invoke e Tabela) log_error)"

definition group_gate :: "env \<Rightarrow> int \<Rightarrow> msg \<Rightarrow> prog" where
  "group_gate e now m s =
     (if is_group (remoteJid m)
      then case ensureGroupReady e now (remoteJid m) s of
        (s', ready) \<Rightarrow>
          if \<not> ready \<and> tabela_like (lowerText m) then tabela_fallback e s' else dispatch e m s'
      else dispatch e m s)"

text \<open>
  The catch block of the final variant: log, then if \<open>authReady\<close> send the error reply
  and push it only when that send throws, else push it.
\<close>

definition report_error_final :: "env \<Rightarrow> jid \<Rightarrow> prog" where
  "report_error_final e senderJid =
     and_then log_error
       (\<lambda>s. if authReady s
             then case sendMessage e senderJid processing_error_text s of
               (s', ok) \<Rightarrow>
                 if ok then (s', False) else (enqueue (senderJid, processing_error_text) s', False)
             else (enqueue (senderJid, processing_error_text) s, False))"

definition processMessage_final :: "env \<Rightarrow> int \<Rightarrow> msg \<Rightarrow> prog" where
  "processMessage_final e now m =
     and_then (try_catch (invoke e AntiLinkMessage) log_error)
       (try_catch (and_then (side_checks e m) (group_gate e now m))
          (report_error_final e (remoteJid m)))"

section \<open>Inbound message batches\<close>

text \<open>
  The \<open>messages.upsert\<close> handler of telao3: nothing for an absent or empty batch, only
  \<open>messages[0]\<close> otherwise; nothing when it is the bot's own; the fixed reply is pushed
  when \<open>authReady\<close> is false; else \<open>await processMessage(msg)\<close>.
\<close>

definition messages_upsert_telao3 :: "env \<Rightarrow> msg list \<Rightarrow> prog" where
  "messages_upsert_telao3 e messages s =
     (case messages of
        [] \<Rightarrow> (s, False)
      | m # _ \<Rightarrow>
          if fromMe m then (s, False)
          else if \<not> authReady s then (enqueue (remoteJid m, bot_starting_text_telao3) s, False)
          else processMessage_telao3 e m s)"

text \<open>
  The handler of the final variant ends with \<open>process.nextTick(() =>
  processMessage(msg).catch(...))\<close>; the model runs the message to its end before the
  next event (the sequential discipline). What overlapping messages do to the group
  readiness cache is modelled apart, by \<open>cache_step\<close>.
\<close>

definition messages_upsert_final :: "env \<Rightarrow> int \<Rightarrow> msg list \<Rightarrow> prog" where
  "messages_upsert_final e now messages s =
     (case messages of
        [] \<Rightarrow> (s, False)
      | m # _ \<Rightarrow>
          if fromMe m then (s, False)
          else if \<not> authReady s then (enqueue (remoteJid m, bot_starting_text) s, False)
          else try_catch (processMessage_final e now m) log_error s)"

section \<open>Session supervisor\<close>

text \<open>
  A \<open>connection.update\<close> event: \<open>connection\<close> (absent, or one of the states), the status
  code \<open>motivo\<close> that \<open>new Boom(lastDisconnect?.error)?.output?.statusCode\<close> yields, and
  \<open>qr\<close> (absent or a string).
\<close>

datatype connection = Close | Open | Connecting | Ping

record update =
  connection :: "connection option"
  statusCode :: int
  qr :: "jsstring option"

text \<open>\<open>DisconnectReason.loggedOut\<close> of the Baileys library.\<close>

definition loggedOut :: int where
  "loggedOut = 401"

text \<open>\<open>if (qr)\<close>: absent and the empty string are falsy.\<close>

definition truthy :: "jsstring option \<Rightarrow> bool" where
  "truthy v = (case v of None \<Rightarrow> False | Some t \<Rightarrow> t \<noteq> [])"

text \<open>\<open>try { ... QRCode.toDataURL(qr); console.log(...) } catch (err) { console.error(...) }\<close>\<close>

definition show_qr :: "env \<Rightarrow> bot \<Rightarrow> bot" where
  "show_qr e s = s\<lparr>trace := trace s @ [if qrRenders e then PrintQR else LogError]\<rparr>"

definition schedule_restart :: "rat \<Rightarrow> bot \<Rightarrow> bot" where
  "schedule_restart d s = s\<lparr>trace := trace s @ [Restart d]\<rparr>"

definition process_exit :: "int \<Rightarrow> bot \<Rightarrow> bot" where
  "process_exit c s = s\<lparr>exited := Some c, trace := trace s @ [Exit c]\<rparr>"

text \<open>Removal of the local credentials, when there are any.\<close>

definition remove_auth :: "bot \<Rightarrow> bot" where
  "remove_auth s = (if localCreds s then s\<lparr>localCreds := False, trace := trace s @ [RemoveAuth]\<rparr> else s)"

text \<open>\<open>syncAuthToSupabase\<close>: uploads the local credential files, when there are any.\<close>

definition syncAuthToSupabase :: "bot \<Rightarrow> bot" where
  "syncAuthToSupabase s = (if localCreds s then s\<lparr>trace := trace s @ [SyncToSupabase]\<rparr> else s)"

text \<open>
  \<open>syncAuthFromSupabase\<close> of md1, md2 and final: a failure wipes the local folder, an empty
  listing leaves it, a listing with files downloads them.
\<close>

definition syncAuthFromSupabase :: "env \<Rightarrow> bot \<Rightarrow> bot" where
  "syncAuthFromSupabase e s =
     (case store e of
        RemoteError \<Rightarrow> s\<lparr>localCreds := False\<rparr>
      | RemoteEmpty \<Rightarrow> s
      | RemoteFiles \<Rightarrow> s\<lparr>localCreds := True\<rparr>)"

subsection \<open>telao3\<close>

text \<open>
  The handler of telao3: every \<open>qr\<close> is printed; a logout closure is \<open>process.exit(0)\<close>,
  any other closure restarts after 3000 ms; \<open>open\<close> sets \<open>authReady\<close> and flushes.
\<close>

definition connection_update_telao3 :: "env \<Rightarrow> update \<Rightarrow> bot \<Rightarrow> bot" where
  "connection_update_telao3 e u s =
     (let s1 = (if truthy (qr u) then show_qr e s else s) in
      case connection u of
        Some Close \<Rightarrow>
          if statusCode u = loggedOut then process_exit 0 s1 else schedule_restart 3000 s1
      | Some Open \<Rightarrow> processPendingMessages e (s1\<lparr>authReady := True\<rparr>)
      | _ \<Rightarrow> s1)"

text \<open>\<open>iniciarBot\<close> of telao3 up to the new socket: the remote files are downloaded.\<close>

definition iniciarBot_telao3 :: "env \<Rightarrow> bot \<Rightarrow> bot" where
  "iniciarBot_telao3 e s = s\<lparr>localCreds := (localCreds s \<or> store e = RemoteFiles)\<rparr>"

subsection \<open>legacy, md1 and md2\<close>

text \<open>
  The handler of legacy, md1 and md2: \<open>qr\<close> is printed under \<open>qr && !qrSent\<close>; a logout
  closure removes the local credentials and restarts after 3000 ms, any other closure
  restarts after 5000 ms; \<open>open\<close> sets \<open>authReady\<close>, flushes and uploads.
\<close>

definition connection_update_legacy :: "env \<Rightarrow> update \<Rightarrow> bot \<Rightarrow> bot" where
  "connection_update_legacy e u s =
     (let s1 = (if truthy (qr u) \<and> \<not> qrSent s then show_qr e (s\<lparr>qrSent := True\<rparr>) else s) in
      case connection u of
        Some Close \<Rightarrow>
          if statusCode u = loggedOut then schedule_restart 3000 (remove_auth s1)
          else schedule_restart 5000 s1
      | Some Open \<Rightarrow> syncAuthToSupabase (processPendingMessages e (s1\<lparr>authReady := True\<rparr>))
      | _ \<Rightarrow> s1)"

text \<open>
  \<open>iniciarBot\<close> of legacy: the one credential file is downloaded, or removed when the
  download fails; then \<open>qrSent = false\<close>.
\<close>

definition iniciarBot_legacy :: "env \<Rightarrow> bot \<Rightarrow> bot" where
  "iniciarBot_legacy e s = s\<lparr>localCreds := (store e = RemoteFiles), qrSent := False\<rparr>"

text \<open>
  \<open>iniciarBot\<close> of md1: the credentials are fetched, \<open>qrSent = false\<close>, and the caches of
  the new session instance start empty (md2 is the same without the caches).
\<close>

definition iniciarBot_md1 :: "env \<Rightarrow> bot \<Rightarrow> bot" where
  "iniciarBot_md1 e s =
     (syncAuthFromSupabase e s)\<lparr>qrSent := False, senderReadyGroups := {}, senderAttemptAt := (\<lambda>_. None)\<rparr>"

subsection \<open>final\<close>

definition MAX_RECONNECT_ATTEMPTS :: nat where
  "MAX_RECONNECT_ATTEMPTS = 10"

definition RECONNECT_DELAY :: rat where
  "RECONNECT_DELAY = 5000"

text \<open>
  \<open>Math.min(RECONNECT_DELAY * Math.pow(1.5, reconnectAttempts - 1), 30000)\<close>, read after
  \<open>reconnectAttempts++\<close>, so the counter is at least 1 here. The doubles of JavaScript
  hold \<open>5000 * 1.5 ^ k\<close> exactly as long as it is below the cap (\<open>k \<le> 4\<close>), and the
  minimum is the cap beyond: the rational number is the value computed.
\<close>

definition backoff_delay :: "nat \<Rightarrow> rat" where
  "backoff_delay n = min (RECONNECT_DELAY * (3 / 2) ^ (n - 1)) 30000"

text \<open>
  The handler of the final variant. Under \<open>qr && !qrSent\<close> the counter is reset too. On
  \<open>close\<close> the counter is incremented and the delay computed before the reason is looked
  at: logout removes the credentials, resets the counter and restarts after 3000 ms; a
  counter above the maximum is \<open>process.exit(1)\<close>; otherwise \<open>authReady\<close> is cleared and
  the restart is scheduled after the delay.
\<close>

definition connection_update_final :: "env \<Rightarrow> update \<Rightarrow> bot \<Rightarrow> bot" where
  "connection_update_final e u s =
     (let s1 = (if truthy (qr u) \<and> \<not> qrSent s
                then show_qr e (s\<lparr>qrSent := True, reconnectAttempts := 0\<rparr>) else s) in
      case connection u of
        Some Close \<Rightarrow>
          (let s2 = s1\<lparr>reconnectAttempts := reconnectAttempts s1 + 1\<rparr>;
               delay = backoff_delay (reconnectAttempts s2) in
           if statusCode u = loggedOut
           then schedule_restart 3000 ((remove_auth s2)\<lparr>reconnectAttempts := 0\<rparr>)
           else if reconnectAttempts s2 > MAX_RECONNECT_ATTEMPTS then process_exit 1 s2
           else schedule_restart delay (s2\<lparr>authReady := False\<rparr>))
      | Some Open \<Rightarrow>
          syncAuthToSupabase
            (processPendingMessages_final e (s1\<lparr>authReady := True, reconnectAttempts := 0\<rparr>))
      | _ \<Rightarrow> s1)"

text \<open>
  \<open>iniciarBot\<close> of the final variant up to the new socket: the counter is reset when
  \<open>authReady\<close> still holds, the credentials are fetched, \<open>qrSent = false\<close>, and the
  function's own \<open>senderReadyGroups\<close> and \<open>senderAttemptAt\<close> start empty.
\<close>

definition iniciarBot_final :: "env \<Rightarrow> bot \<Rightarrow> bot" where
  "iniciarBot_final e s =
     (let s1 = (if authReady s then s\<lparr>reconnectAttempts := 0\<rparr> else s);
          s2 = syncAuthFromSupabase e s1 in
      s2\<lparr>qrSent := False, senderReadyGroups := {}, senderAttemptAt := (\<lambda>_. None)\<rparr>)"

text \<open>
  The events of a run of the final variant: the timer of a scheduled restart fires
  (\<open>Start\<close>), or the socket emits \<open>connection.update\<close>, \<open>messages.upsert\<close> (with the time
  \<open>Date.now()\<close> shows while it is handled) or \<open>creds.update\<close>. Each event comes with the
  environment it meets. Nothing runs after \<open>process.exit\<close>.
\<close>

datatype event = Start | ConnectionUpdate update | MessagesUpsert int "msg list" | CredsUpdate

definition step_final :: "env \<times> event \<Rightarrow> bot \<Rightarrow> bot" where
  "step_final x s =
     (if exited s \<noteq> None then s
      else case snd x of
        Start \<Rightarrow> iniciarBot_final (fst x) s
      | ConnectionUpdate u \<Rightarrow> connection_update_final (fst x) u s
      | MessagesUpsert now ms \<Rightarrow> fst (messages_upsert_final (fst x) now ms s)
      | CredsUpdate \<Rightarrow> syncAuthToSupabase (s\<lparr>localCreds := True\<rparr>))"

fun run_final :: "(env \<times> event) list \<Rightarrow> bot \<Rightarrow> bot" where
  "run_final [] s = s"
| "run_final (x # xs) s = run_final xs (step_final x s)"

text \<open>The restart delays and the handler calls of a trace, in order.\<close>

fun restarts :: "effect list \<Rightarrow> rat list" where
  "restarts [] = []"
| "restarts (Restart d # es) = d # restarts es"
| "restarts (_ # es) = restarts es"

fun invoked :: "effect list \<Rightarrow> handler list" where
  "invoked [] = []"
| "invoked (Invoke h # es) = h # invoked es"
| "invoked (_ # es) = invoked es"

section \<open>Event sequences, observations and sample inputs\<close>

text \<open>
  A closure that is no logout and carries no QR code, and the runs that consist of such
  closures and of restarts only.
\<close>

definition plain_closure :: "update \<Rightarrow> bool" where
  "plain_closure u = (connection u = Some Close \<and> statusCode u \<noteq> loggedOut \<and> \<not> truthy (qr u))"

fun closure_or_start :: "env \<times> event \<Rightarrow> bool" where
  "closure_or_start (e, Start) = True"
| "closure_or_start (e, ConnectionUpdate u) = plain_closure u"
| "closure_or_start (e, _) = False"

fun is_closure :: "env \<times> event \<Rightarrow> bool" where
  "is_closure (e, ConnectionUpdate u) = (connection u = Some Close)"
| "is_closure (e, _) = False"

text \<open>
  Concrete inputs: an environment where every send resolves, no handler throws, the QR
  code renders and the remote store lists files; a closure with status 428, a logout
  closure, a QR signal and an open transition.
\<close>

definition e_ok :: env where
  "e_ok = \<lparr> net = (\<lambda>_. True), throws = (\<lambda>_. False), qrRenders = True, store = RemoteFiles \<rparr>"

definition drop_update :: update where
  "drop_update = \<lparr> connection = Some Close, statusCode = 428, qr = None \<rparr>"

definition logout_update :: update where
  "logout_update = \<lparr> connection = Some Close, statusCode = 401, qr = None \<rparr>"

definition scan_update :: update where
  "scan_update = \<lparr> connection = None, statusCode = 500, qr = Some (js ''2@abc'') \<rparr>"

definition open_update :: update where
  "open_update = \<lparr> connection = Some Open, statusCode = 500, qr = None \<rparr>"

text \<open>
  The \<open>connection.update\<close> events one session instance of legacy, md1 or md2 handles, in
  order.
\<close>

fun updates_legacy :: "(env \<times> update) list \<Rightarrow> bot \<Rightarrow> bot" where
  "updates_legacy [] s = s"
| "updates_legacy (x # xs) s = updates_legacy xs (connection_update_legacy (fst x) (snd x) s)"

text \<open>
  The error replies for a conversation that were delivered or are waiting in the queue.
\<close>

definition replies :: "jid \<Rightarrow> bot \<Rightarrow> nat" where
  "replies j s = count_list (trace s) (Send j processing_error_text True)
               + count_list (pendingMessages s) (j, processing_error_text)"

text \<open>
  What message processing leaves alone outside its catch blocks: the variables of the
  supervisor, the queue, and the trace but for handler calls, warm-up sends and logged
  lines.
\<close>

definition undisturbed :: "bot \<Rightarrow> bot \<Rightarrow> bool" where
  "undisturbed s s' = (authReady s' = authReady s
       \<and> qrSent s' = qrSent s
       \<and> reconnectAttempts s' = reconnectAttempts s
       \<and> localCreds s' = localCreds s
       \<and> exited s' = exited s
       \<and> pendingMessages s' = pendingMessages s
       \<and> count_list (trace s') PrintQR = count_list (trace s) PrintQR
       \<and> (\<forall>j. count_list (trace s') (Send j processing_error_text True)
              = count_list (trace s) (Send j processing_error_text True)))"

definition quiet :: "prog \<Rightarrow> bool" where
  "quiet p = (\<forall>s. undisturbed s (fst (p s)))"

text \<open>
  The QR codes printed so far, plus one while the session instance may still print its
  own.
\<close>

definition qr_budget :: "bot \<Rightarrow> nat" where
  "qr_budget s = count_list (trace s) PrintQR + (if qrSent s then 0 else 1)"

text \<open>
  More concrete inputs: a group and a direct conversation, a plain text message, an
  environment where \<open>handleCompra2\<close> throws, one where \<open>handleMensagemPix\<close> throws, and
  one where every send fails and \<open>handleTabela\<close> throws however it is called.
\<close>

definition group_jid :: jid where
  "group_jid = js ''120363041234567890@g.us''"

definition user_jid :: jid where
  "user_jid = js ''5511999990000@s.whatsapp.net''"

definition text_msg :: "jid \<Rightarrow> string \<Rightarrow> msg" where
  "text_msg j t = \<lparr> remoteJid = j, fromMe = False, conversation = Some (js t),
     extendedText = None, plainText = None, imageMessage = False \<rparr>"

definition e_compra2_throws :: env where
  "e_compra2_throws = \<lparr> net = (\<lambda>_. True), throws = (\<lambda>h. h = Compra2), qrRenders = True, store = RemoteFiles \<rparr>"

definition e_pix_throws :: env where
  "e_pix_throws = \<lparr> net = (\<lambda>_. True), throws = (\<lambda>h. h = MensagemPix), qrRenders = True, store = RemoteFiles \<rparr>"

definition e_tabela_down :: env where
  "e_tabela_down = \<lparr> net = (\<lambda>_. False), throws = (\<lambda>h. h = Tabela \<or> h = TabelaTextOnly),
     qrRenders = True, store = RemoteFiles \<rparr>"

text \<open>
  The state in which \<open>processMessage\<close> of the final variant reaches its group gate, and
  whether the message then takes the table fallback: the side checks did not throw, the
  conversation is a group that \<open>ensureGroupReady\<close> reports as not ready, and the text asks
  for the table.
\<close>

definition gate_state :: "env \<Rightarrow> msg \<Rightarrow> bot \<Rightarrow> bot" where
  "gate_state e m s = fst (side_checks e m (fst (try_catch (invoke e AntiLinkMessage) log_error s)))"

definition fallback_taken :: "env \<Rightarrow> int \<Rightarrow> msg \<Rightarrow> bot \<Rightarrow> bool" where
  "fallback_taken e now m s =
     (is_group (remoteJid m) \<and> tabela_like (lowerText m)
      \<and> \<not> snd (ensureGroupReady e now (remoteJid m) (gate_state e m s))
      \<and> \<not> snd (side_checks e m (fst (try_catch (invoke e AntiLinkMessage) log_error s))))"

section \<open>Properties of the pending delivery queue\<close>

lemma attempts_append: "attempts (xs @ ys) = attempts xs @ attempts ys"
  by (induction xs rule: attempts.induct) simp_all

lemma attempts_resend: "attempts (trace (resend e p s)) = attempts (trace s) @ [p]"
  by (cases "net e (length (trace s))")
     (simp_all add: resend_def sendMessage_def Let_def attempts_append)

lemma attempts_resend_all:
  "attempts (trace (resend_all e ps s)) = attempts (trace s) @ ps"
  by (induction ps arbitrary: s) (simp_all add: attempts_resend)

lemma fold_enqueue: "pendingMessages (fold enqueue ps s) = pendingMessages s @ ps"
  by (induction ps arbitrary: s) (simp_all add: enqueue_def)

lemma trace_fold_enqueue: "trace (fold enqueue ps s) = trace s"
  by (induction ps arbitrary: s) (simp_all add: enqueue_def)

lemma resend_fields [simp]:
  "pendingMessages (resend e p s) = pendingMessages s"
  "authReady (resend e p s) = authReady s"
  "qrSent (resend e p s) = qrSent s"
  "reconnectAttempts (resend e p s) = reconnectAttempts s"
  "senderReadyGroups (resend e p s) = senderReadyGroups s"
  "senderAttemptAt (resend e p s) = senderAttemptAt s"
  "localCreds (resend e p s) = localCreds s"
  "exited (resend e p s) = exited s"
  by (simp_all add: resend_def sendMessage_def Let_def)

lemma resend_all_fields [simp]:
  "pendingMessages (resend_all e ps s) = pendingMessages s"
  "authReady (resend_all e ps s) = authReady s"
  "qrSent (resend_all e ps s) = qrSent s"
  "reconnectAttempts (resend_all e ps s) = reconnectAttempts s"
  "senderReadyGroups (resend_all e ps s) = senderReadyGroups s"
  "senderAttemptAt (resend_all e ps s) = senderAttemptAt s"
  "localCreds (resend_all e ps s) = localCreds s"
  "exited (resend_all e ps s) = exited s"
  by (induction ps arbitrary: s) simp_all

lemma flush_attempts:
  "attempts (trace (processPendingMessages e s)) = attempts (trace s) @ pendingMessages s"
  by (simp add: processPendingMessages_def attempts_resend_all)

lemma flush_final_attempts:
  "attempts (trace (processPendingMessages_final e s)) = attempts (trace s) @ pendingMessages s"
  by (simp add: processPendingMessages_final_def attempts_resend_all)

lemma flush_empty: "pendingMessages (processPendingMessages e s) = []"
  by (simp add: processPendingMessages_def)

lemma flush_final_empty: "pendingMessages (processPendingMessages_final e s) = []"
  by (simp add: processPendingMessages_final_def)

text \<open>
  Claim C1. Whatever the queue holds when the flush runs, the flush makes one delivery
  attempt per queued entry, in insertion order and no other (a failed attempt is logged,
  the entry is not put back), and leaves the queue empty; the entries pushed after a
  flush are exactly what the next flush attempts. This holds for \<open>processPendingMessages\<close>
  of the early variants and of the final variant, and so for the \<open>connection.update\<close>
  handler of every variant on an open transition.
\<close>

theorem flush_fifo_once_and_empties:
  "attempts (trace (processPendingMessages e s)) = attempts (trace s) @ pendingMessages s
   \<and> pendingMessages (processPendingMessages e s) = []
   \<and> attempts (trace (processPendingMessages e' (fold enqueue ps (processPendingMessages e s))))
       = attempts (trace (processPendingMessages e s)) @ ps
   \<and> attempts (trace (processPendingMessages_final e s)) = attempts (trace s) @ pendingMessages s
   \<and> pendingMessages (processPendingMessages_final e s) = []
   \<and> attempts (trace (processPendingMessages_final e' (fold enqueue ps (processPendingMessages_final e s))))
       = attempts (trace (processPendingMessages_final e s)) @ ps
   \<and> (connection u = Some Open \<longrightarrow>
        attempts (trace (connection_update_telao3 e u s)) = attempts (trace s) @ pendingMessages s
        \<and> pendingMessages (connection_update_telao3 e u s) = []
        \<and> attempts (trace (connection_update_legacy e u s)) = attempts (trace s) @ pendingMessages s
        \<and> pendingMessages (connection_update_legacy e u s) = []
        \<and> attempts (trace (connection_update_final e u s)) = attempts (trace s) @ pendingMessages s
        \<and> pendingMessages (connection_update_final e u s) = [])"
proof -
  have flushes:
    "attempts (trace (processPendingMessages e s)) = attempts (trace s) @ pendingMessages s
     \<and> pendingMessages (processPendingMessages e s) = []
     \<and> attempts (trace (processPendingMessages e' (fold enqueue ps (processPendingMessages e s))))
         = attempts (trace (processPendingMessages e s)) @ ps
     \<and> attempts (trace (processPendingMessages_final e s)) = attempts (trace s) @ pendingMessages s
     \<and> pendingMessages (processPendingMessages_final e s) = []
     \<and> attempts (trace (processPendingMessages_final e' (fold enqueue ps (processPendingMessages_final e s))))
         = attempts (trace (processPendingMessages_final e s)) @ ps"
    by (simp add: flush_attempts flush_final_attempts flush_empty flush_final_empty
        fold_enqueue trace_fold_enqueue)
  have on_open: "connection u = Some Open \<longrightarrow>
        attempts (trace (connection_update_telao3 e u s)) = attempts (trace s) @ pendingMessages s
        \<and> pendingMessages (connection_update_telao3 e u s) = []
        \<and> attempts (trace (connection_update_legacy e u s)) = attempts (trace s) @ pendingMessages s
        \<and> pendingMessages (connection_update_legacy e u s) = []
        \<and> attempts (trace (connection_update_final e u s)) = attempts (trace s) @ pendingMessages s
        \<and> pendingMessages (connection_update_final e u s) = []"
    by (simp add: connection_update_telao3_def connection_update_legacy_def
        connection_update_final_def Let_def show_qr_def syncAuthToSupabase_def
        processPendingMessages_def processPendingMessages_final_def
        attempts_resend_all attempts_append)
  from flushes on_open show ?thesis by blast
qed

text \<open>
  Claim C1 at a queue of two replies whose second delivery fails: both are attempted
  once, in order, the failure is logged and the queue is empty.
\<close>

theorem flush_fifo_witness:
  "trace (processPendingMessages \<lparr>net = (\<lambda>n. n = 0), throws = (\<lambda>_. False), qrRenders = True, store = RemoteEmpty\<rparr>
      (initial\<lparr>pendingMessages := [(js ''a@s.whatsapp.net'', bot_starting_text),
                                     (js ''b@s.whatsapp.net'', processing_error_text)]\<rparr>))
     = [Send (js ''a@s.whatsapp.net'') bot_starting_text True,
        Send (js ''b@s.whatsapp.net'') processing_error_text False, LogError]
   \<and> attempts (trace (processPendingMessages \<lparr>net = (\<lambda>n. n = 0), throws = (\<lambda>_. False), qrRenders = True, store = RemoteEmpty\<rparr>
      (initial\<lparr>pendingMessages := [(js ''a@s.whatsapp.net'', bot_starting_text),
                                     (js ''b@s.whatsapp.net'', processing_error_text)]\<rparr>)))
     = [(js ''a@s.whatsapp.net'', bot_starting_text), (js ''b@s.whatsapp.net'', processing_error_text)]
   \<and> pendingMessages (processPendingMessages \<lparr>net = (\<lambda>n. n = 0), throws = (\<lambda>_. False), qrRenders = True, store = RemoteEmpty\<rparr>
      (initial\<lparr>pendingMessages := [(js ''a@s.whatsapp.net'', bot_starting_text),
                                     (js ''b@s.whatsapp.net'', processing_error_text)]\<rparr>)) = []"
  using flush_fifo_once_and_empties[of "\<lparr>net = (\<lambda>n. n = 0), throws = (\<lambda>_. False), qrRenders = True, store = RemoteEmpty\<rparr>"
      "initial\<lparr>pendingMessages := [(js ''a@s.whatsapp.net'', bot_starting_text),
                                     (js ''b@s.whatsapp.net'', processing_error_text)]\<rparr>"]
  by (simp add: processPendingMessages_def resend_def sendMessage_def initial_def Let_def)

section \<open>Properties of the session supervisor\<close>

subsection \<open>When the counter is zero\<close>

lemma counter_zero_iff:
  "reconnectAttempts (connection_update_final e u s) = 0 \<longleftrightarrow>
     connection u = Some Open
     \<or> (connection u = Some Close \<and> statusCode u = loggedOut)
     \<or> (connection u \<noteq> Some Close \<and> connection u \<noteq> Some Open
         \<and> (reconnectAttempts s = 0 \<or> (truthy (qr u) \<and> \<not> qrSent s)))"
proof (cases "connection u")
  case None
  then show ?thesis by (auto simp add: connection_update_final_def Let_def show_qr_def)
next
  case (Some c)
  then show ?thesis
    by (cases c)
       (auto simp add: connection_update_final_def Let_def show_qr_def schedule_restart_def
        process_exit_def remove_auth_def syncAuthToSupabase_def processPendingMessages_final_def)
qed

subsection \<open>The backoff delay\<close>

lemma backoff_mono: "m \<le> n \<Longrightarrow> backoff_delay m \<le> backoff_delay n"
proof -
  assume "m \<le> n"
  then have "m - 1 \<le> n - 1" by simp
  then have "((3::rat) / 2) ^ (m - 1) \<le> (3 / 2) ^ (n - 1)"
    by (intro power_increasing) simp_all
  then have "RECONNECT_DELAY * (3 / 2) ^ (m - 1) \<le> RECONNECT_DELAY * (3 / 2) ^ (n - 1)"
    by (simp add: RECONNECT_DELAY_def)
  then show ?thesis
    unfolding backoff_delay_def by (rule min.mono) simp
qed

lemma backoff_cap: "backoff_delay n \<le> 30000"
  by (simp add: backoff_delay_def)

lemma backoff_base: "5000 \<le> backoff_delay n"
proof -
  have "(1::rat) \<le> (3 / 2) ^ (n - 1)" by (rule one_le_power) simp
  then show ?thesis by (simp add: backoff_delay_def RECONNECT_DELAY_def)
qed

subsection \<open>Runs of closures\<close>

lemma run_final_exited: "exited s \<noteq> None \<Longrightarrow> run_final xs s = s"
  by (induction xs) (simp_all add: step_final_def)

lemma start_idle:
  "authReady s \<longrightarrow> reconnectAttempts s = 0 \<Longrightarrow> exited s = None \<Longrightarrow>
   authReady (step_final (e, Start) s) = authReady s \<and> exited (step_final (e, Start) s) = None
   \<and> reconnectAttempts (step_final (e, Start) s) = reconnectAttempts s
   \<and> trace (step_final (e, Start) s) = trace s"
  by (auto simp add: step_final_def iniciarBot_final_def syncAuthFromSupabase_def Let_def
      split: remote.splits)

lemma closure_retry:
  assumes "plain_closure u" "exited s = None" "reconnectAttempts s < MAX_RECONNECT_ATTEMPTS"
  shows "step_final (e, ConnectionUpdate u) s =
           s\<lparr>reconnectAttempts := Suc (reconnectAttempts s), authReady := False,
             trace := trace s @ [Restart (backoff_delay (Suc (reconnectAttempts s)))]\<rparr>"
  using assms
  by (simp add: step_final_def connection_update_final_def plain_closure_def Let_def schedule_restart_def)

lemma closure_exit:
  assumes "plain_closure u" "exited s = None" "reconnectAttempts s \<ge> MAX_RECONNECT_ATTEMPTS"
  shows "step_final (e, ConnectionUpdate u) s =
           s\<lparr>reconnectAttempts := Suc (reconnectAttempts s), exited := Some 1, trace := trace s @ [Exit 1]\<rparr>"
  using assms
  by (simp add: step_final_def connection_update_final_def plain_closure_def Let_def process_exit_def)

lemma restarts_append: "restarts (xs @ ys) = restarts xs @ restarts ys"
  by (induction xs rule: restarts.induct) simp_all

lemma closures_run:
  "list_all closure_or_start xs \<Longrightarrow> authReady s \<longrightarrow> reconnectAttempts s = 0 \<Longrightarrow>
   exited s = None \<Longrightarrow> reconnectAttempts s \<le> MAX_RECONNECT_ATTEMPTS \<Longrightarrow>
   exited (run_final xs s) =
     (if reconnectAttempts s + length (filter is_closure xs) > MAX_RECONNECT_ATTEMPTS then Some 1 else None)
   \<and> restarts (trace (run_final xs s)) =
       restarts (trace s) @ map backoff_delay
         [Suc (reconnectAttempts s) ..< Suc (min (reconnectAttempts s + length (filter is_closure xs)) MAX_RECONNECT_ATTEMPTS)]"
proof (induction xs arbitrary: s)
  case Nil
  then show ?case by simp
next
  case (Cons x xs)
  obtain e ev where x: "x = (e, ev)" by (cases x)
  show ?case
  proof (cases ev)
    case Start
    with Cons.prems x have st: "authReady (step_final x s) \<longrightarrow> reconnectAttempts (step_final x s) = 0"
      "exited (step_final x s) = None"
      "reconnectAttempts (step_final x s) = reconnectAttempts s" "trace (step_final x s) = trace s"
      using start_idle[of s e] by simp_all
    from Cons.prems have "list_all closure_or_start xs" by simp
    from Cons.IH[OF this st(1) st(2)] Cons.prems(4) st(3) st(4) x Start
    show ?thesis by simp
  next
    case (ConnectionUpdate u)
    with Cons.prems x have pc: "plain_closure u" by simp
    then have cl: "is_closure x" by (simp add: x ConnectionUpdate plain_closure_def)
    from Cons.prems have rest: "list_all closure_or_start xs" by simp
    show ?thesis
    proof (cases "reconnectAttempts s < MAX_RECONNECT_ATTEMPTS")
      case True
      let ?s' = "step_final x s"
      from closure_retry[OF pc Cons.prems(3) True, of e]
      have s': "?s' = s\<lparr>reconnectAttempts := Suc (reconnectAttempts s), authReady := False,
             trace := trace s @ [Restart (backoff_delay (Suc (reconnectAttempts s)))]\<rparr>"
        by (simp add: x ConnectionUpdate)
      have a: "authReady ?s' \<longrightarrow> reconnectAttempts ?s' = 0" "exited ?s' = None"
        "reconnectAttempts ?s' \<le> MAX_RECONNECT_ATTEMPTS"
        using True Cons.prems(3) by (simp_all add: s')
      let ?c = "length (filter is_closure xs)"
      let ?a = "reconnectAttempts s"
      have len: "length (filter is_closure (x # xs)) = Suc ?c" using cl by simp
      have sw: "?a + Suc ?c = Suc ?a + ?c" by simp
      have "Suc ?a < Suc (min (Suc ?a + ?c) MAX_RECONNECT_ATTEMPTS)" using True by simp
      then have "[Suc ?a ..< Suc (min (Suc ?a + ?c) MAX_RECONNECT_ATTEMPTS)]
                 = Suc ?a # [Suc (Suc ?a) ..< Suc (min (Suc ?a + ?c) MAX_RECONNECT_ATTEMPTS)]"
        by (rule upt_conv_Cons)
      then have upt: "[Suc ?a ..< Suc (min (?a + Suc ?c) MAX_RECONNECT_ATTEMPTS)]
                 = Suc ?a # [Suc (Suc ?a) ..< Suc (min (Suc ?a + ?c) MAX_RECONNECT_ATTEMPTS)]"
        by (simp only: sw)
      have ex: "(?a + Suc ?c > MAX_RECONNECT_ATTEMPTS) = (Suc ?a + ?c > MAX_RECONNECT_ATTEMPTS)" by simp
      have ra: "reconnectAttempts ?s' = Suc ?a" and tr: "restarts (trace ?s') = restarts (trace s) @ [backoff_delay (Suc ?a)]"
        by (simp_all add: s' restarts_append)
      from Cons.IH[OF rest a]
      have "exited (run_final xs ?s') = (if MAX_RECONNECT_ATTEMPTS < Suc ?a + ?c then Some 1 else None)"
        and "restarts (trace (run_final xs ?s')) = (restarts (trace s) @ [backoff_delay (Suc ?a)]) @
              map backoff_delay [Suc (Suc ?a)..<Suc (min (Suc ?a + ?c) MAX_RECONNECT_ATTEMPTS)]"
        unfolding ra tr by simp_all
      then show ?thesis
        unfolding len upt run_final.simps ex by (simp only: list.map append_assoc append.simps simp_thms)
    next
      case False
      with Cons.prems(4) have eq: "reconnectAttempts s = MAX_RECONNECT_ATTEMPTS" by simp
      let ?s' = "step_final x s"
      from closure_exit[OF pc Cons.prems(3), of e] eq
      have s': "?s' = s\<lparr>reconnectAttempts := Suc (reconnectAttempts s), exited := Some 1, trace := trace s @ [Exit 1]\<rparr>"
        by (simp add: x ConnectionUpdate)
      then have "exited ?s' \<noteq> None" by simp
      then have "run_final xs ?s' = ?s'" by (rule run_final_exited)
      then show ?thesis using cl eq
        by (simp add: s' restarts_append)
    qed
  qed (use Cons.prems x in simp_all)
qed

lemma last_restart [simp]: "last (trace (schedule_restart d s)) = Restart d"
  by (simp add: schedule_restart_def)

text \<open>
  Claim C2, as amended. In a run of the final variant that starts in a running process
  with the counter at zero (whether or not the session has been open before) and
  consists only of non-logout closures (without QR code) and restarts, the process has
  exited, with code 1, exactly when more than 10 closures have occurred: each of the first ten closures schedules a restart (after the backoff
  delay of its attempt number), the eleventh exits. An open transition sets the counter
  to zero. The counter is not reset by \<open>open\<close> alone: a \<open>connection.update\<close> leaves it at
  zero exactly when it is an open transition, a logout closure, or neither a closure nor
  an open transition while the counter was zero already or the event is the first QR
  signal of the session instance; and \<open>iniciarBot\<close> resets it when \<open>authReady\<close> still holds.
\<close>

theorem reconnect_ceiling_and_counter_reset:
  "(list_all closure_or_start xs \<and> exited s = None \<and> reconnectAttempts s = 0 \<longrightarrow>
      exited (run_final xs s) = (if length (filter is_closure xs) > 10 then Some 1 else None)
      \<and> restarts (trace (run_final xs s)) =
          restarts (trace s) @ map backoff_delay [1 ..< Suc (min (length (filter is_closure xs)) 10)])
   \<and> (connection u = Some Open \<longrightarrow> reconnectAttempts (connection_update_final e u s') = 0)
   \<and> (reconnectAttempts (connection_update_final e u s') = 0 \<longleftrightarrow>
         connection u = Some Open
         \<or> (connection u = Some Close \<and> statusCode u = loggedOut)
         \<or> (connection u \<noteq> Some Close \<and> connection u \<noteq> Some Open
             \<and> (reconnectAttempts s' = 0 \<or> (truthy (qr u) \<and> \<not> qrSent s'))))
   \<and> reconnectAttempts (iniciarBot_final e s') = (if authReady s' then 0 else reconnectAttempts s')"
proof -
  have a: "list_all closure_or_start xs \<and> exited s = None \<and> reconnectAttempts s = 0 \<longrightarrow>
      exited (run_final xs s) = (if length (filter is_closure xs) > 10 then Some 1 else None)
      \<and> restarts (trace (run_final xs s)) =
          restarts (trace s) @ map backoff_delay [1 ..< Suc (min (length (filter is_closure xs)) 10)]"
  proof
    assume h: "list_all closure_or_start xs \<and> exited s = None \<and> reconnectAttempts s = 0"
    then have "reconnectAttempts s \<le> MAX_RECONNECT_ATTEMPTS"
      and "authReady s \<longrightarrow> reconnectAttempts s = 0" by simp_all
    with h closures_run[of xs s] show "exited (run_final xs s) = (if length (filter is_closure xs) > 10 then Some 1 else None)
      \<and> restarts (trace (run_final xs s)) =
          restarts (trace s) @ map backoff_delay [1 ..< Suc (min (length (filter is_closure xs)) 10)]"
      by (simp add: MAX_RECONNECT_ATTEMPTS_def)
  qed
  have b: "connection u = Some Open \<longrightarrow> reconnectAttempts (connection_update_final e u s') = 0"
    by (simp add: counter_zero_iff)
  have c: "reconnectAttempts (iniciarBot_final e s') = (if authReady s' then 0 else reconnectAttempts s')"
    by (simp add: iniciarBot_final_def syncAuthFromSupabase_def Let_def split: remote.splits)
  from a b c counter_zero_iff[of e u s'] show ?thesis by blast
qed

text \<open>
  Claim C2, as amended, at concrete runs: ten closures leave the process running, the
  eleventh ends it with code 1, and the ten restarts were scheduled after 5000, 7500,
  11250, 16875, 25312.5 and then 30000 ms; the same from a state in which the session is
  open.
\<close>

theorem reconnect_ceiling_witness:
  "exited (run_final (concat (replicate 10 [(e_ok, ConnectionUpdate drop_update), (e_ok, Start)])) initial) = None
   \<and> exited (run_final (concat (replicate 11 [(e_ok, ConnectionUpdate drop_update), (e_ok, Start)])) initial) = Some 1
   \<and> restarts (trace (run_final (concat (replicate 11 [(e_ok, ConnectionUpdate drop_update), (e_ok, Start)])) initial))
       = [5000, 7500, 11250, 16875, 50625 / 2, 30000, 30000, 30000, 30000, 30000]
   \<and> exited (run_final (concat (replicate 10 [(e_ok, ConnectionUpdate drop_update), (e_ok, Start)]))
        (initial\<lparr>authReady := True\<rparr>)) = None
   \<and> exited (run_final (concat (replicate 11 [(e_ok, ConnectionUpdate drop_update), (e_ok, Start)]))
        (initial\<lparr>authReady := True\<rparr>)) = Some 1
   \<and> reconnectAttempts (connection_update_final e_ok open_update (initial\<lparr>reconnectAttempts := 4\<rparr>)) = 0"
proof -
  let ?xs = "\<lambda>n. concat (replicate n [(e_ok, ConnectionUpdate drop_update), (e_ok, Start)])"
  have pc: "plain_closure drop_update"
    by (simp add: plain_closure_def drop_update_def loggedOut_def truthy_def)
  have h: "list_all closure_or_start (?xs n)" for n
    by (induction n) (simp_all add: pc)
  have len: "length (filter is_closure (?xs n)) = n" for n
    by (induction n) (simp_all add: drop_update_def)
  have i: "exited initial = None \<and> reconnectAttempts initial = 0 \<and> trace initial = []"
    "exited (initial\<lparr>authReady := True\<rparr>) = None \<and> reconnectAttempts (initial\<lparr>authReady := True\<rparr>) = 0"
    by (simp_all add: initial_def)
  have bd: "map backoff_delay [1..<11] = [5000, 7500, 11250, 16875, 50625 / 2, 30000, 30000, 30000, 30000, 30000]"
    by (simp add: backoff_delay_def RECONNECT_DELAY_def power_divide upt_rec)
  have o: "connection open_update = Some Open" by (simp add: open_update_def)
  from reconnect_ceiling_and_counter_reset[of "?xs 10" initial open_update e_ok "initial\<lparr>reconnectAttempts := 4\<rparr>"]
       reconnect_ceiling_and_counter_reset[of "?xs 11" initial open_update e_ok "initial\<lparr>reconnectAttempts := 4\<rparr>"]
       reconnect_ceiling_and_counter_reset[of "?xs 10" "initial\<lparr>authReady := True\<rparr>" open_update e_ok "initial\<lparr>reconnectAttempts := 4\<rparr>"]
       reconnect_ceiling_and_counter_reset[of "?xs 11" "initial\<lparr>authReady := True\<rparr>" open_update e_ok "initial\<lparr>reconnectAttempts := 4\<rparr>"]
       h[of 10] h[of 11] i o bd
  show ?thesis
    by (simp only: len) simp
qed

text \<open>
  Claim C2 as stated fails in its last part (the counter is reset exactly when the
  session reaches open): after two closures the counter is 2, and a QR signal on the
  new session instance sets it to zero although the session never reached open.
\<close>

theorem counter_reset_by_scan_signal:
  "reconnectAttempts (run_final [(e_ok, ConnectionUpdate drop_update), (e_ok, Start),
       (e_ok, ConnectionUpdate drop_update), (e_ok, Start)] initial) = 2
   \<and> reconnectAttempts (run_final [(e_ok, ConnectionUpdate drop_update), (e_ok, Start),
       (e_ok, ConnectionUpdate drop_update), (e_ok, Start), (e_ok, ConnectionUpdate scan_update)] initial) = 0
   \<and> authReady (run_final [(e_ok, ConnectionUpdate drop_update), (e_ok, Start),
       (e_ok, ConnectionUpdate drop_update), (e_ok, Start), (e_ok, ConnectionUpdate scan_update)] initial) = False"
  by (simp add: step_final_def initial_def e_ok_def drop_update_def scan_update_def
      connection_update_final_def iniciarBot_final_def syncAuthFromSupabase_def Let_def
      schedule_restart_def show_qr_def truthy_def loggedOut_def MAX_RECONNECT_ATTEMPTS_def js_def)

text \<open>
  Claim C3, as amended. In the final variant a non-logout closure after which the
  process still runs has scheduled the restart after \<open>backoff_delay\<close> of the counter
  (between 1 and 10 then), which is \<open>min (5000 * 1.5 ^ (attempts - 1)) 30000\<close>,
  non-decreasing in the counter and never above 30000. In telao3 the delay of a
  non-logout closure is 3000 ms, in legacy, md1 and md2 it is 5000 ms, whatever the
  number of closures before.
\<close>

theorem restart_delay_policy:
  "(connection u = Some Close \<and> statusCode u \<noteq> loggedOut
      \<and> exited (connection_update_final e u s) = None \<longrightarrow>
        last (trace (connection_update_final e u s))
          = Restart (backoff_delay (reconnectAttempts (connection_update_final e u s)))
        \<and> 1 \<le> reconnectAttempts (connection_update_final e u s)
        \<and> reconnectAttempts (connection_update_final e u s) \<le> 10)
   \<and> backoff_delay n = min (5000 * (3 / 2) ^ (n - 1)) 30000
   \<and> (m \<le> n \<longrightarrow> backoff_delay m \<le> backoff_delay n)
   \<and> backoff_delay n \<le> 30000
   \<and> (connection u = Some Close \<and> statusCode u \<noteq> loggedOut \<longrightarrow>
        last (trace (connection_update_telao3 e u s)) = Restart 3000
        \<and> last (trace (connection_update_legacy e u s)) = Restart 5000)"
proof -
  have a: "connection u = Some Close \<and> statusCode u \<noteq> loggedOut
      \<and> exited (connection_update_final e u s) = None \<longrightarrow>
        last (trace (connection_update_final e u s))
          = Restart (backoff_delay (reconnectAttempts (connection_update_final e u s)))
        \<and> 1 \<le> reconnectAttempts (connection_update_final e u s)
        \<and> reconnectAttempts (connection_update_final e u s) \<le> 10"
    by (auto simp add: connection_update_final_def Let_def schedule_restart_def process_exit_def
        MAX_RECONNECT_ATTEMPTS_def show_qr_def)
  have b: "backoff_delay n = min (5000 * (3 / 2) ^ (n - 1)) 30000"
    by (simp add: backoff_delay_def RECONNECT_DELAY_def)
  have c: "connection u = Some Close \<and> statusCode u \<noteq> loggedOut \<longrightarrow>
        last (trace (connection_update_telao3 e u s)) = Restart 3000
        \<and> last (trace (connection_update_legacy e u s)) = Restart 5000"
    by (simp add: connection_update_telao3_def connection_update_legacy_def Let_def)
  from a b c backoff_mono[of m n] backoff_cap[of n] show ?thesis by blast
qed

text \<open>Claim C3, as amended, at the third closure in a row: 11250 ms.\<close>

theorem restart_delay_policy_witness:
  "last (trace (connection_update_final e_ok drop_update (initial\<lparr>reconnectAttempts := 2\<rparr>))) = Restart 11250
   \<and> backoff_delay 2 \<le> backoff_delay 3
   \<and> last (trace (connection_update_legacy e_ok drop_update initial)) = Restart 5000"
proof -
  have h: "connection drop_update = Some Close \<and> statusCode drop_update \<noteq> loggedOut"
    by (simp add: drop_update_def loggedOut_def)
  have x: "exited (connection_update_final e_ok drop_update (initial\<lparr>reconnectAttempts := 2\<rparr>)) = None"
    "reconnectAttempts (connection_update_final e_ok drop_update (initial\<lparr>reconnectAttempts := 2\<rparr>)) = 3"
    by (simp_all add: connection_update_final_def drop_update_def initial_def Let_def truthy_def
        loggedOut_def MAX_RECONNECT_ATTEMPTS_def schedule_restart_def)
  have bd: "backoff_delay 3 = 11250"
    by (simp add: backoff_delay_def RECONNECT_DELAY_def power_divide)
  from restart_delay_policy[of drop_update e_ok "initial\<lparr>reconnectAttempts := 2\<rparr>" 3 2]
       restart_delay_policy[of drop_update e_ok initial 3 2] h x bd
  show ?thesis by simp
qed

text \<open>
  Claim C3 as stated fails on telao3: the first non-logout closure restarts after
  3000 ms, where the formula gives 5000 ms for the first attempt.
\<close>

theorem flat_delay_telao3:
  "trace (connection_update_telao3 e_ok drop_update initial) = [Restart 3000]
   \<and> backoff_delay 1 = 5000"
  by (simp add: connection_update_telao3_def drop_update_def initial_def Let_def truthy_def
      loggedOut_def schedule_restart_def backoff_delay_def RECONNECT_DELAY_def)

text \<open>
  Claim C4, as amended. On a logout closure the final variant leaves no local
  credentials, has the counter at zero and has, as its last action, scheduled the
  restart after the fixed 3000 ms (not the backoff delay); legacy, md1 and md2 do the same
  without a counter; a new session instance only exists once that timer has fired. telao3
  instead ends the process with exit code 0: it keeps the local credentials and
  schedules nothing.
\<close>

theorem logout_closure:
  "connection u = Some Close \<and> statusCode u = loggedOut \<longrightarrow>
     (localCreds (connection_update_final e u s) = False
      \<and> reconnectAttempts (connection_update_final e u s) = 0
      \<and> exited (connection_update_final e u s) = exited s
      \<and> last (trace (connection_update_final e u s)) = Restart 3000
      \<and> restarts (trace (connection_update_final e u s)) = restarts (trace s) @ [3000])
   \<and> (localCreds (connection_update_legacy e u s) = False
      \<and> last (trace (connection_update_legacy e u s)) = Restart 3000
      \<and> restarts (trace (connection_update_legacy e u s)) = restarts (trace s) @ [3000])
   \<and> (exited (connection_update_telao3 e u s) = Some 0
      \<and> localCreds (connection_update_telao3 e u s) = localCreds s
      \<and> restarts (trace (connection_update_telao3 e u s)) = restarts (trace s))"
  by (simp add: connection_update_final_def connection_update_legacy_def connection_update_telao3_def
      Let_def schedule_restart_def remove_auth_def process_exit_def show_qr_def restarts_append)

text \<open>Claim C4, as amended, at a logout after seven failed attempts.\<close>

theorem logout_closure_witness:
  "localCreds (connection_update_final e_ok logout_update (initial\<lparr>localCreds := True, reconnectAttempts := 7\<rparr>)) = False
   \<and> reconnectAttempts (connection_update_final e_ok logout_update (initial\<lparr>localCreds := True, reconnectAttempts := 7\<rparr>)) = 0
   \<and> last (trace (connection_update_final e_ok logout_update (initial\<lparr>localCreds := True, reconnectAttempts := 7\<rparr>))) = Restart 3000"
proof -
  have h: "connection logout_update = Some Close \<and> statusCode logout_update = loggedOut"
    by (simp add: logout_update_def loggedOut_def)
  from logout_closure[of logout_update e_ok "initial\<lparr>localCreds := True, reconnectAttempts := 7\<rparr>"] h
  show ?thesis by simp
qed

text \<open>
  Claim C4 as stated fails on telao3: a logout closure exits the process; the local
  credentials stay and no start is scheduled.
\<close>

theorem logout_exits_telao3:
  "exited (connection_update_telao3 e_ok logout_update (iniciarBot_telao3 e_ok initial)) = Some 0
   \<and> localCreds (iniciarBot_telao3 e_ok initial) = True
   \<and> localCreds (connection_update_telao3 e_ok logout_update (iniciarBot_telao3 e_ok initial)) = True
   \<and> trace (connection_update_telao3 e_ok logout_update (iniciarBot_telao3 e_ok initial)) = [Exit 0]"
  by (simp add: connection_update_telao3_def logout_update_def initial_def Let_def truthy_def
      loggedOut_def process_exit_def iniciarBot_telao3_def e_ok_def)

section \<open>Properties of message processing\<close>

subsection \<open>What the pieces leave alone\<close>

lemma undisturbed_refl: "undisturbed s s"
  by (simp add: undisturbed_def)

lemma undisturbed_trans: "undisturbed s s' \<Longrightarrow> undisturbed s' s'' \<Longrightarrow> undisturbed s s''"
  by (simp add: undisturbed_def)

lemma quietD: "quiet p \<Longrightarrow> undisturbed s (fst (p s))"
  by (simp add: quiet_def)

lemma quiet_no_op: "quiet no_op"
  by (simp add: quiet_def no_op_def undisturbed_def)

lemma quiet_log_error: "quiet log_error"
  by (simp add: quiet_def log_error_def undisturbed_def)

lemma quiet_invoke: "quiet (invoke e h)"
  by (simp add: quiet_def invoke_def undisturbed_def)

lemma quiet_and_then: 
  assumes "quiet p" "quiet q" shows "quiet (and_then p q)"
  unfolding quiet_def
proof
  fix s
  obtain s' t where ps: "p s = (s', t)" by (cases "p s")
  have 1: "undisturbed s s'" using quietD[OF assms(1), of s] ps by simp
  have 2: "undisturbed s' (fst (q s'))" by (rule quietD[OF assms(2)])
  show "undisturbed s (fst (and_then p q s))"
    using 1 undisturbed_trans[OF 1 2] by (simp add: and_then_def ps)
qed

lemma quiet_try_catch:
  assumes "quiet p" "quiet c" shows "quiet (try_catch p c)"
  unfolding quiet_def
proof
  fix s
  obtain s' t where ps: "p s = (s', t)" by (cases "p s")
  have 1: "undisturbed s s'" using quietD[OF assms(1), of s] ps by simp
  have 2: "undisturbed s' (fst (c s'))" by (rule quietD[OF assms(2)])
  show "undisturbed s (fst (try_catch p c s))"
    using 1 undisturbed_trans[OF 1 2] by (simp add: try_catch_def ps)
qed

lemma init_not_error: "group_init_text \<noteq> processing_error_text"
  by (simp add: group_init_text_def processing_error_text_def)

lemma ensureGroupReady_unfold:
  "ensureGroupReady e now groupId s =
     (if groupId = [] \<or> \<not> is_group groupId then (s, True)
      else if groupId \<in> senderReadyGroups s then (s, True)
      else if now - lastAttempt s groupId < SENDER_COOLDOWN_MS then (s, False)
      else case sendMessage e groupId group_init_text
                  (s\<lparr>senderAttemptAt := (senderAttemptAt s)(groupId \<mapsto> now)\<rparr>) of
        (s', ok) \<Rightarrow>
          if ok then (s'\<lparr>senderReadyGroups := insert groupId (senderReadyGroups s')\<rparr>, True)
          else (s'\<lparr>trace := trace s' @ [LogError]\<rparr>, False))"
  by (simp add: ensureGroupReady_def ensureGroupReady_begin_def ensureGroupReady_finish_def
      sendMessage_def Let_def)

lemma quiet_ensureGroupReady: "quiet (ensureGroupReady e now g)"
  by (simp add: quiet_def ensureGroupReady_unfold sendMessage_def Let_def undisturbed_def init_not_error)

lemma quiet_side_checks: "quiet (side_checks e m)"
  by (simp add: side_checks_def quiet_and_then quiet_invoke quiet_no_op)

lemma quiet_dispatch: "quiet (dispatch e m)"
  by (simp add: dispatch_def quiet_invoke quiet_no_op split: option.splits)

lemma quiet_tabela_fallback: "quiet (tabela_fallback e)"
  by (simp add: tabela_fallback_def quiet_try_catch quiet_invoke quiet_log_error)

lemma quiet_group_gate: "quiet (group_gate e now m)"
  unfolding quiet_def
proof
  fix s
  show "undisturbed s (fst (group_gate e now m s))"
  proof (cases "is_group (remoteJid m)")
    case False
    then show ?thesis using quietD[OF quiet_dispatch, of s e m] by (simp add: group_gate_def)
  next
    case True
    obtain s' r where en: "ensureGroupReady e now (remoteJid m) s = (s', r)"
      by (cases "ensureGroupReady e now (remoteJid m) s")
    have 1: "undisturbed s s'" using quietD[OF quiet_ensureGroupReady, of s e now "remoteJid m"] en by simp
    have 2: "undisturbed s' (fst (tabela_fallback e s'))" by (rule quietD[OF quiet_tabela_fallback])
    have 3: "undisturbed s' (fst (dispatch e m s'))" by (rule quietD[OF quiet_dispatch])
    show ?thesis
      using True undisturbed_trans[OF 1 2] undisturbed_trans[OF 1 3]
      by (simp add: group_gate_def en)
  qed
qed

lemma undisturbed_replies: "undisturbed s s' \<Longrightarrow> replies j s' = replies j s"
  by (simp add: undisturbed_def replies_def)

text \<open>The catch blocks change the trace and the queue only, and do not throw.\<close>

lemma report_error_final_effect:
  "snd (report_error_final e j s) = False"
  "replies j (fst (report_error_final e j s)) = replies j s + 1"
  "authReady (fst (report_error_final e j s)) = authReady s"
  "exited (fst (report_error_final e j s)) = exited s"
  "qrSent (fst (report_error_final e j s)) = qrSent s"
  "reconnectAttempts (fst (report_error_final e j s)) = reconnectAttempts s"
  "localCreds (fst (report_error_final e j s)) = localCreds s"
  "count_list (trace (fst (report_error_final e j s))) PrintQR = count_list (trace s) PrintQR"
  by (simp_all add: report_error_final_def and_then_def log_error_def sendMessage_def
      enqueue_def replies_def Let_def)

lemma report_error_telao3_effect:
  "snd (report_error_telao3 j s) = False"
  "pendingMessages (fst (report_error_telao3 j s)) = pendingMessages s @ [(j, processing_error_text)]"
  "authReady (fst (report_error_telao3 j s)) = authReady s"
  "exited (fst (report_error_telao3 j s)) = exited s"
  by (simp_all add: report_error_telao3_def and_then_def log_error_def enqueue_def)

lemma antilink_guard:
  "snd (try_catch (invoke e AntiLinkMessage) log_error s) = False"
  "undisturbed s (fst (try_catch (invoke e AntiLinkMessage) log_error s))"
  by (simp_all add: try_catch_def invoke_def log_error_def undisturbed_def)

lemma dispatch_throws:
  "route (lowerText m) (remoteJid m) = Some h \<Longrightarrow> snd (dispatch e m s) = throws e h"
  by (simp add: dispatch_def invoke_def)

lemma body_telao3_throws:
  assumes "route (lowerText m) (remoteJid m) = Some h" "throws e h"
  shows "snd (and_then (side_checks e m) (dispatch e m) s) = True"
  using assms dispatch_throws[OF assms(1), of e]
  by (simp add: and_then_def split: prod.splits)

lemma quiet_body_telao3: "quiet (and_then (side_checks e m) (dispatch e m))"
  by (simp add: quiet_and_then quiet_side_checks quiet_dispatch)

lemma quiet_body_final: "quiet (and_then (side_checks e m) (group_gate e now m))"
  by (simp add: quiet_and_then quiet_side_checks quiet_group_gate)

lemma try_catch_no_throw: "(\<And>s. snd (c s) = False) \<Longrightarrow> snd (try_catch p c s) = False"
  by (cases "p s") (simp add: try_catch_def)

lemma and_then_no_throw:
  assumes "\<And>s. snd (p s) = False" "\<And>s. snd (q s) = False"
  shows "snd (and_then p q s) = False"
  using assms(1)[of s] assms(2) by (cases "p s") (simp add: and_then_def)

lemma processMessage_telao3_no_throw: "snd (processMessage_telao3 e m s) = False"
  unfolding processMessage_telao3_def
  by (intro and_then_no_throw try_catch_no_throw report_error_telao3_effect(1)) (simp add: log_error_def)

lemma processMessage_final_no_throw: "snd (processMessage_final e now m s) = False"
  unfolding processMessage_final_def
  by (intro and_then_no_throw try_catch_no_throw report_error_final_effect(1)) (simp add: log_error_def)

lemma and_then_after_guard:
  assumes "snd (p s) = False"
  shows "and_then p q s = q (fst (p s))"
  using assms by (cases "p s") (simp add: and_then_def)

lemma try_catch_threw:
  assumes "snd (p s) = True"
  shows "try_catch p c s = c (fst (p s))"
  using assms by (cases "p s") (simp add: try_catch_def)

lemma processMessage_telao3_fault:
  assumes "route (lowerText m) (remoteJid m) = Some h" "throws e h"
  shows "pendingMessages (fst (processMessage_telao3 e m s)) = pendingMessages s @ [(remoteJid m, processing_error_text)]"
    and "authReady (fst (processMessage_telao3 e m s)) = authReady s"
    and "exited (fst (processMessage_telao3 e m s)) = exited s"
proof -
  let ?s1 = "fst (try_catch (invoke e AntiLinkMessage) log_error s)"
  let ?body = "and_then (side_checks e m) (dispatch e m)"
  let ?s2 = "fst (?body ?s1)"
  have pm: "processMessage_telao3 e m s = report_error_telao3 (remoteJid m) ?s2"
    unfolding processMessage_telao3_def
    by (simp add: and_then_after_guard[OF antilink_guard(1)] try_catch_threw[OF body_telao3_throws[OF assms]])
  have u: "undisturbed s ?s2"
    by (rule undisturbed_trans[OF antilink_guard(2) quietD[OF quiet_body_telao3]])
  from u show "pendingMessages (fst (processMessage_telao3 e m s)) = pendingMessages s @ [(remoteJid m, processing_error_text)]"
    and "authReady (fst (processMessage_telao3 e m s)) = authReady s"
    and "exited (fst (processMessage_telao3 e m s)) = exited s"
    by (simp_all add: pm report_error_telao3_effect undisturbed_def)
qed

lemma messages_upsert_no_throw:
  "snd (messages_upsert_telao3 e ms s) = False"
  "snd (messages_upsert_final e now ms s) = False"
  by (simp_all add: messages_upsert_telao3_def messages_upsert_final_def processMessage_telao3_no_throw
      try_catch_no_throw log_error_def split: list.splits)

lemma try_catch_either:
  "try_catch p c s = (if snd (p s) then c (fst (p s)) else (fst (p s), False))"
  by (cases "p s") (simp add: try_catch_def)

lemma processMessage_final_fields:
  "authReady (fst (processMessage_final e now m s)) = authReady s"
  "exited (fst (processMessage_final e now m s)) = exited s"
  "qrSent (fst (processMessage_final e now m s)) = qrSent s"
  "reconnectAttempts (fst (processMessage_final e now m s)) = reconnectAttempts s"
  "localCreds (fst (processMessage_final e now m s)) = localCreds s"
  "count_list (trace (fst (processMessage_final e now m s))) PrintQR = count_list (trace s) PrintQR"
proof -
  let ?s1 = "fst (try_catch (invoke e AntiLinkMessage) log_error s)"
  let ?body = "and_then (side_checks e m) (group_gate e now m)"
  let ?s2 = "fst (?body ?s1)"
  have pm: "processMessage_final e now m s =
      (if snd (?body ?s1) then report_error_final e (remoteJid m) ?s2 else (?s2, False))"
    unfolding processMessage_final_def
    by (simp add: and_then_after_guard[OF antilink_guard(1)] try_catch_either)
  have u: "undisturbed s ?s2"
    by (rule undisturbed_trans[OF antilink_guard(2) quietD[OF quiet_body_final]])
  from u show "authReady (fst (processMessage_final e now m s)) = authReady s"
  "exited (fst (processMessage_final e now m s)) = exited s"
  "qrSent (fst (processMessage_final e now m s)) = qrSent s"
  "reconnectAttempts (fst (processMessage_final e now m s)) = reconnectAttempts s"
  "localCreds (fst (processMessage_final e now m s)) = localCreds s"
  "count_list (trace (fst (processMessage_final e now m s))) PrintQR = count_list (trace s) PrintQR"
    by (simp_all add: pm report_error_final_effect undisturbed_def)
qed

lemma messages_upsert_final_fields:
  "authReady (fst (messages_upsert_final e now ms s)) = authReady s"
  "exited (fst (messages_upsert_final e now ms s)) = exited s"
  "qrSent (fst (messages_upsert_final e now ms s)) = qrSent s"
  "reconnectAttempts (fst (messages_upsert_final e now ms s)) = reconnectAttempts s"
  "localCreds (fst (messages_upsert_final e now ms s)) = localCreds s"
  "count_list (trace (fst (messages_upsert_final e now ms s))) PrintQR = count_list (trace s) PrintQR"
  by (simp_all add: messages_upsert_final_def try_catch_either processMessage_final_no_throw
      processMessage_final_fields enqueue_def split: list.splits)

lemma tabela_fallback_no_throw: "snd (tabela_fallback e s) = False"
  unfolding tabela_fallback_def
  by (intro try_catch_no_throw) (simp add: log_error_def)

lemma group_gate_result:
  "snd (group_gate e now m s) =
     (if is_group (remoteJid m) \<and> tabela_like (lowerText m)
          \<and> \<not> snd (ensureGroupReady e now (remoteJid m) s)
      then False
      else (case route (lowerText m) (remoteJid m) of None \<Rightarrow> False | Some h \<Rightarrow> throws e h))"
  by (cases "ensureGroupReady e now (remoteJid m) s")
     (simp add: group_gate_def tabela_fallback_no_throw dispatch_def invoke_def no_op_def
      split: option.splits)

lemma body_final_result:
  "snd (and_then (side_checks e m) (group_gate e now m) s1) =
     (snd (side_checks e m s1) \<or> snd (group_gate e now m (fst (side_checks e m s1))))"
  by (cases "side_checks e m s1") (simp add: and_then_def)

lemma processMessage_final_replies:
  "replies (remoteJid m) (fst (processMessage_final e now m s)) =
     replies (remoteJid m) s
       + (if snd (and_then (side_checks e m) (group_gate e now m)
                   (fst (try_catch (invoke e AntiLinkMessage) log_error s))) then 1 else 0)"
proof -
  let ?s1 = "fst (try_catch (invoke e AntiLinkMessage) log_error s)"
  let ?body = "and_then (side_checks e m) (group_gate e now m)"
  let ?s2 = "fst (?body ?s1)"
  have pm: "processMessage_final e now m s =
      (if snd (?body ?s1) then report_error_final e (remoteJid m) ?s2 else (?s2, False))"
    unfolding processMessage_final_def
    by (simp add: and_then_after_guard[OF antilink_guard(1)] try_catch_either)
  have u: "undisturbed s ?s2"
    by (rule undisturbed_trans[OF antilink_guard(2) quietD[OF quiet_body_final]])
  from undisturbed_replies[OF u, of "remoteJid m"] show ?thesis
    by (simp add: pm report_error_final_effect)
qed

lemma final_fault_one_reply:
  assumes "route (lowerText m) (remoteJid m) = Some h" "throws e h" "\<not> fallback_taken e now m s"
  shows "replies (remoteJid m) (fst (processMessage_final e now m s)) = replies (remoteJid m) s + 1"
  using assms
  by (auto simp add: processMessage_final_replies body_final_result group_gate_result
      fallback_taken_def gate_state_def)

lemma final_fallback_no_reply:
  assumes "fallback_taken e now m s"
  shows "replies (remoteJid m) (fst (processMessage_final e now m s)) = replies (remoteJid m) s"
  using assms
  by (auto simp add: processMessage_final_replies body_final_result group_gate_result
      fallback_taken_def gate_state_def)

subsection \<open>The QR budget\<close>

lemma count_resend_all [simp]: "count_list (trace (resend_all e ps s)) PrintQR = count_list (trace s) PrintQR"
  by (induction ps arbitrary: s) (simp_all add: resend_def sendMessage_def Let_def)

lemma qr_budget_legacy: "qr_budget (connection_update_legacy e u s) \<le> qr_budget s"
proof (cases "connection u")
  case None
  then show ?thesis by (simp add: qr_budget_def connection_update_legacy_def Let_def show_qr_def)
next
  case (Some c)
  then show ?thesis
    by (cases c)
       (simp_all add: qr_budget_def connection_update_legacy_def Let_def show_qr_def
        schedule_restart_def remove_auth_def syncAuthToSupabase_def processPendingMessages_def)
qed

lemma qr_budget_final: "qr_budget (connection_update_final e u s) \<le> qr_budget s"
proof (cases "connection u")
  case None
  then show ?thesis by (simp add: qr_budget_def connection_update_final_def Let_def show_qr_def)
next
  case (Some c)
  then show ?thesis
    by (cases c)
       (simp_all add: qr_budget_def connection_update_final_def Let_def show_qr_def process_exit_def
        schedule_restart_def remove_auth_def syncAuthToSupabase_def processPendingMessages_final_def)
qed

lemma qr_budget_updates_legacy: "qr_budget (updates_legacy xs s) \<le> qr_budget s"
proof (induction xs arbitrary: s)
  case Nil
  show ?case by simp
next
  case (Cons x xs)
  have "qr_budget (updates_legacy xs (connection_update_legacy (fst x) (snd x) s))
          \<le> qr_budget (connection_update_legacy (fst x) (snd x) s)" by (rule Cons.IH)
  also have "\<dots> \<le> qr_budget s" by (rule qr_budget_legacy)
  finally show ?case by simp
qed

lemma qr_budget_step_final: "snd x \<noteq> Start \<Longrightarrow> qr_budget (step_final x s) \<le> qr_budget s"
  by (cases "snd x")
     (simp_all add: step_final_def qr_budget_final,
      simp_all add: qr_budget_def messages_upsert_final_fields syncAuthToSupabase_def)

lemma qr_budget_run_final:
  "list_all (\<lambda>x. snd x \<noteq> Start) xs \<Longrightarrow> qr_budget (run_final xs s) \<le> qr_budget s"
proof (induction xs arbitrary: s)
  case Nil
  show ?case by simp
next
  case (Cons x xs)
  then have "qr_budget (run_final xs (step_final x s)) \<le> qr_budget (step_final x s)" by simp
  also have "\<dots> \<le> qr_budget s" using Cons.prems by (simp add: qr_budget_step_final)
  finally show ?case by simp
qed

lemma count_le_budget: "count_list (trace s) PrintQR \<le> qr_budget s"
  by (simp add: qr_budget_def)

subsection \<open>Claims\<close>

lemma invoked_append: "invoked (xs @ ys) = invoked xs @ invoked ys"
  by (induction xs rule: invoked.induct) simp_all

lemma lower_of_conversation:
  "conversation m = Some (js ''@TABELA'') \<Longrightarrow> lowerText m = js ''@tabela''"
  "conversation m = Some (js ''.compra abc'') \<Longrightarrow> lowerText m = js ''.compra abc''"
  "conversation m = Some (js ''@grupo on'') \<Longrightarrow> lowerText m = js ''@grupo on''"
  "conversation m = Some (js ''hello'') \<Longrightarrow> lowerText m = js ''hello''"
  by (simp_all add: lowerText_def messageText_def toLowerCase_def lower_unit_def trim_def
      strip_marks_def is_space_def js_def)

lemma route_samples:
  "route (js ''@tabela'') j = Some Tabela"
  "route (js ''.compra abc'') j = Some Compra2"
  "route (js ''@grupo on'') j = Some Grupo"
  "route (js ''hello'') j = None"
  by (simp_all add: route_def js_def startsWith_def)

lemma processMessage_telao3_calm:
  assumes "\<not> imageMessage m" "\<not> throws e MensagemPix"
  shows "invoked (trace (fst (processMessage_telao3 e m s))) =
           invoked (trace s) @ [AntiLinkMessage, MensagemPix]
             @ (case route (lowerText m) (remoteJid m) of None \<Rightarrow> [] | Some h \<Rightarrow> [h])"
    and "route (lowerText m) (remoteJid m) = None \<Longrightarrow>
           pendingMessages (fst (processMessage_telao3 e m s)) = pendingMessages s
           \<and> attempts (trace (fst (processMessage_telao3 e m s))) = attempts (trace s)"
  using assms
  by (simp_all add: processMessage_telao3_def report_error_telao3_def and_then_def try_catch_def
      invoke_def log_error_def side_checks_def dispatch_def no_op_def invoked_append
      attempts_append enqueue_def split: option.splits)

lemma processMessage_telao3_unmatched:
  assumes "route (lowerText m) (remoteJid m) = None"
  shows "invoked (trace (fst (processMessage_telao3 e m s))) =
           invoked (trace s) @ AntiLinkMessage #
             (if imageMessage m \<and> is_group (remoteJid m)
              then ComprovanteFoto # (if throws e ComprovanteFoto then [] else [MensagemPix])
              else [MensagemPix])"
    and "pendingMessages (fst (processMessage_telao3 e m s)) =
           pendingMessages s @
             (if (imageMessage m \<and> is_group (remoteJid m) \<and> throws e ComprovanteFoto)
                 \<or> throws e MensagemPix
              then [(remoteJid m, processing_error_text)] else [])"
    and "attempts (trace (fst (processMessage_telao3 e m s))) = attempts (trace s)"
  using assms
  by (simp_all add: processMessage_telao3_def report_error_telao3_def and_then_def try_catch_def
      invoke_def log_error_def side_checks_def dispatch_def no_op_def invoked_append
      attempts_append enqueue_def)

text \<open>
  Claim C6, as amended. Matching works on the lower-cased text and the first test that
  holds picks the handler: a message whose text is \<open>@TABELA\<close> is matched as \<open>@tabela\<close> and
  dispatches \<open>handleTabela\<close>, \<open>.compra abc\<close> dispatches \<open>handleCompra2\<close>, \<open>@grupo on\<close>
  dispatches \<open>handleGrupo\<close>, and \<open>hello\<close> matches no test. For \<open>hello\<close>, \<open>processMessage\<close>
  of telao3 calls no command handler, but it does call the checks that run on every
  message: the anti-link check, the receipt check for an image in a group, and the
  payment check unless the receipt check threw. It sends nothing, and it leaves the
  queue as it was unless the receipt check or the payment check throws: then the error
  reply for the sender is queued.
\<close>

theorem command_dispatch:
  "(conversation m = Some (js ''@TABELA'') \<longrightarrow>
      lowerText m = js ''@tabela'' \<and> dispatch e m = invoke e Tabela)
   \<and> (conversation m = Some (js ''.compra abc'') \<longrightarrow> dispatch e m = invoke e Compra2)
   \<and> (conversation m = Some (js ''@grupo on'') \<longrightarrow> dispatch e m = invoke e Grupo)
   \<and> (conversation m = Some (js ''hello'') \<longrightarrow> dispatch e m = no_op)
   \<and> (conversation m = Some (js ''@TABELA'') \<and> \<not> imageMessage m \<and> \<not> throws e MensagemPix \<longrightarrow>
        invoked (trace (fst (processMessage_telao3 e m s)))
          = invoked (trace s) @ [AntiLinkMessage, MensagemPix, Tabela])
   \<and> (conversation m = Some (js ''hello'') \<and> \<not> imageMessage m \<and> \<not> throws e MensagemPix \<longrightarrow>
        invoked (trace (fst (processMessage_telao3 e m s)))
          = invoked (trace s) @ [AntiLinkMessage, MensagemPix]
        \<and> pendingMessages (fst (processMessage_telao3 e m s)) = pendingMessages s
        \<and> attempts (trace (fst (processMessage_telao3 e m s))) = attempts (trace s))
   \<and> (conversation m = Some (js ''hello'') \<longrightarrow>
        invoked (trace (fst (processMessage_telao3 e m s))) =
          invoked (trace s) @ AntiLinkMessage #
            (if imageMessage m \<and> is_group (remoteJid m)
             then ComprovanteFoto # (if throws e ComprovanteFoto then [] else [MensagemPix])
             else [MensagemPix])
        \<and> pendingMessages (fst (processMessage_telao3 e m s)) =
          pendingMessages s @
            (if (imageMessage m \<and> is_group (remoteJid m) \<and> throws e ComprovanteFoto)
                \<or> throws e MensagemPix
             then [(remoteJid m, processing_error_text)] else [])
        \<and> attempts (trace (fst (processMessage_telao3 e m s))) = attempts (trace s))"
proof -
  have unmatched: "conversation m = Some (js ''hello'') \<longrightarrow>
        invoked (trace (fst (processMessage_telao3 e m s))) =
          invoked (trace s) @ AntiLinkMessage #
            (if imageMessage m \<and> is_group (remoteJid m)
             then ComprovanteFoto # (if throws e ComprovanteFoto then [] else [MensagemPix])
             else [MensagemPix])
        \<and> pendingMessages (fst (processMessage_telao3 e m s)) =
          pendingMessages s @
            (if (imageMessage m \<and> is_group (remoteJid m) \<and> throws e ComprovanteFoto)
                \<or> throws e MensagemPix
             then [(remoteJid m, processing_error_text)] else [])
        \<and> attempts (trace (fst (processMessage_telao3 e m s))) = attempts (trace s)"
  proof
    assume c: "conversation m = Some (js ''hello'')"
    have r: "route (lowerText m) (remoteJid m) = None"
      by (simp add: lower_of_conversation(4)[OF c] route_samples)
    from processMessage_telao3_unmatched[OF r, of e s]
    show "invoked (trace (fst (processMessage_telao3 e m s))) =
          invoked (trace s) @ AntiLinkMessage #
            (if imageMessage m \<and> is_group (remoteJid m)
             then ComprovanteFoto # (if throws e ComprovanteFoto then [] else [MensagemPix])
             else [MensagemPix])
        \<and> pendingMessages (fst (processMessage_telao3 e m s)) =
          pendingMessages s @
            (if (imageMessage m \<and> is_group (remoteJid m) \<and> throws e ComprovanteFoto)
                \<or> throws e MensagemPix
             then [(remoteJid m, processing_error_text)] else [])
        \<and> attempts (trace (fst (processMessage_telao3 e m s))) = attempts (trace s)"
      by blast
  qed
  have matched:
    "(conversation m = Some (js ''@TABELA'') \<longrightarrow>
        lowerText m = js ''@tabela'' \<and> dispatch e m = invoke e Tabela)
     \<and> (conversation m = Some (js ''.compra abc'') \<longrightarrow> dispatch e m = invoke e Compra2)
     \<and> (conversation m = Some (js ''@grupo on'') \<longrightarrow> dispatch e m = invoke e Grupo)
     \<and> (conversation m = Some (js ''hello'') \<longrightarrow> dispatch e m = no_op)
     \<and> (conversation m = Some (js ''@TABELA'') \<and> \<not> imageMessage m \<and> \<not> throws e MensagemPix \<longrightarrow>
          invoked (trace (fst (processMessage_telao3 e m s)))
            = invoked (trace s) @ [AntiLinkMessage, MensagemPix, Tabela])
     \<and> (conversation m = Some (js ''hello'') \<and> \<not> imageMessage m \<and> \<not> throws e MensagemPix \<longrightarrow>
          invoked (trace (fst (processMessage_telao3 e m s)))
            = invoked (trace s) @ [AntiLinkMessage, MensagemPix]
          \<and> pendingMessages (fst (processMessage_telao3 e m s)) = pendingMessages s
          \<and> attempts (trace (fst (processMessage_telao3 e m s))) = attempts (trace s))"
    using processMessage_telao3_calm[of m e s]
    by (auto simp add: dispatch_def lower_of_conversation route_samples)
  from matched unmatched show ?thesis by blast
qed

text \<open>
  Claim C6, as amended, at the four messages of the claim, sent in a direct
  conversation.
\<close>

theorem command_dispatch_witness:
  "dispatch e_ok (text_msg user_jid ''@TABELA'') = invoke e_ok Tabela
   \<and> dispatch e_ok (text_msg user_jid ''.compra abc'') = invoke e_ok Compra2
   \<and> dispatch e_ok (text_msg user_jid ''@grupo on'') = invoke e_ok Grupo
   \<and> dispatch e_ok (text_msg user_jid ''hello'') = no_op
   \<and> invoked (trace (fst (processMessage_telao3 e_ok (text_msg user_jid ''@TABELA'') initial)))
        = [AntiLinkMessage, MensagemPix, Tabela]
   \<and> invoked (trace (fst (processMessage_telao3 e_ok (text_msg user_jid ''hello'') initial)))
        = [AntiLinkMessage, MensagemPix]
   \<and> pendingMessages (fst (processMessage_telao3 e_ok (text_msg user_jid ''hello'') initial)) = []"
  using command_dispatch[of "text_msg user_jid ''@TABELA''" e_ok initial]
        command_dispatch[of "text_msg user_jid ''.compra abc''" e_ok initial]
        command_dispatch[of "text_msg user_jid ''@grupo on''" e_ok initial]
        command_dispatch[of "text_msg user_jid ''hello''" e_ok initial]
  by (simp add: text_msg_def e_ok_def initial_def)

text \<open>
  Claim C6 as stated fails in its last part: for \<open>hello\<close> the payment check is called, and
  when it throws the error reply is queued although no command matched.
\<close>

theorem hello_with_failing_pix_check:
  "route (lowerText (text_msg user_jid ''hello'')) user_jid = None
   \<and> invoked (trace (fst (processMessage_telao3 e_pix_throws (text_msg user_jid ''hello'') initial)))
       = [AntiLinkMessage, MensagemPix]
   \<and> pendingMessages (fst (processMessage_telao3 e_pix_throws (text_msg user_jid ''hello'') initial))
       = [(user_jid, processing_error_text)]"
proof -
  have c: "conversation (text_msg user_jid ''hello'') = Some (js ''hello'')"
    by (simp add: text_msg_def)
  have r: "route (lowerText (text_msg user_jid ''hello'')) (remoteJid (text_msg user_jid ''hello'')) = None"
    by (simp add: lower_of_conversation(4)[OF c] route_samples)
  have j: "remoteJid (text_msg user_jid ''hello'') = user_jid" "imageMessage (text_msg user_jid ''hello'') = False"
    by (simp_all add: text_msg_def)
  from r processMessage_telao3_unmatched[OF r, of e_pix_throws initial]
  show ?thesis by (simp add: j e_pix_throws_def initial_def)
qed

text \<open>
  Claim C7, as amended. When the handler the command chain picks throws, telao3 pushes
  exactly one error reply for the sender onto the queue; the final variant, unless the
  message takes the table fallback, produces exactly one error reply for the sender,
  delivered or queued (it is sent when \<open>authReady\<close> holds and queued when \<open>authReady\<close> is
  false or that send throws). A message that takes the table fallback produces no error
  reply, whatever \<open>handleTabela\<close> does. \<open>authReady\<close> and the exit status are as before,
  and neither \<open>processMessage\<close> nor the \<open>messages.upsert\<close> handler ever throws, for any
  message and any environment, so the next batch is handled as usual.
\<close>

theorem handler_fault_isolated:
  "(route (lowerText m) (remoteJid m) = Some h \<and> throws e h \<longrightarrow>
      pendingMessages (fst (processMessage_telao3 e m s))
        = pendingMessages s @ [(remoteJid m, processing_error_text)]
      \<and> authReady (fst (processMessage_telao3 e m s)) = authReady s
      \<and> exited (fst (processMessage_telao3 e m s)) = exited s)
   \<and> (route (lowerText m) (remoteJid m) = Some h \<and> throws e h \<and> \<not> fallback_taken e now m s \<longrightarrow>
      replies (remoteJid m) (fst (processMessage_final e now m s)) = replies (remoteJid m) s + 1)
   \<and> (fallback_taken e now m s \<longrightarrow>
      replies (remoteJid m) (fst (processMessage_final e now m s)) = replies (remoteJid m) s)
   \<and> authReady (fst (processMessage_final e now m s)) = authReady s
   \<and> exited (fst (processMessage_final e now m s)) = exited s
   \<and> snd (processMessage_telao3 e m s) = False
   \<and> snd (processMessage_final e now m s) = False
   \<and> snd (messages_upsert_telao3 e ms s) = False
   \<and> snd (messages_upsert_final e now ms s) = False"
  using processMessage_telao3_fault[of m h e s] final_fault_one_reply[of m h e now s]
    final_fallback_no_reply[of e now m s]
  by (simp add: processMessage_telao3_no_throw processMessage_final_no_throw messages_upsert_no_throw
      processMessage_final_fields)

text \<open>Claim C7, as amended, at \<open>.compra abc\<close> with a \<open>handleCompra2\<close> that throws.\<close>

theorem handler_fault_witness:
  "pendingMessages (fst (processMessage_telao3 e_compra2_throws (text_msg user_jid ''.compra abc'') initial))
     = [(user_jid, processing_error_text)]
   \<and> replies user_jid (fst (processMessage_final e_compra2_throws 1700000000000
        (text_msg user_jid ''.compra abc'') (initial\<lparr>authReady := True\<rparr>))) = 1
   \<and> snd (messages_upsert_final e_compra2_throws 1700000000000
        [text_msg user_jid ''.compra abc''] (initial\<lparr>authReady := True\<rparr>)) = False"
proof -
  let ?m = "text_msg user_jid ''.compra abc''"
  have r: "route (lowerText ?m) (remoteJid ?m) = Some Compra2"
    by (simp add: text_msg_def lower_of_conversation route_samples)
  have t: "throws e_compra2_throws Compra2" by (simp add: e_compra2_throws_def)
  have g: "\<not> fallback_taken e_compra2_throws 1700000000000 ?m (initial\<lparr>authReady := True\<rparr>)"
    by (simp add: fallback_taken_def text_msg_def is_group_def endsWith_def user_jid_def js_def)
  have z: "replies user_jid (initial\<lparr>authReady := True\<rparr>) = 0" "pendingMessages initial = []"
    by (simp_all add: replies_def initial_def)
  have j: "remoteJid ?m = user_jid" by (simp add: text_msg_def)
  from handler_fault_isolated[of ?m Compra2 e_compra2_throws initial 1700000000000 "[?m]"]
       handler_fault_isolated[of ?m Compra2 e_compra2_throws "initial\<lparr>authReady := True\<rparr>" 1700000000000 "[?m]"]
       r t g z
  show ?thesis by (simp add: j)
qed

text \<open>
  Claim C7 as stated fails in the final variant (and md1) on the fallback path: for
  \<open>@tabela\<close> in a group whose warm-up send fails, the handler the chain would pick,
  \<open>handleTabela\<close>, is called with the text-only flag and then without it, throws both
  times, and the failure is only logged: no error reply is sent or queued.
\<close>

theorem tabela_fallback_swallows_fault:
  "route (lowerText (text_msg group_jid ''@tabela'')) group_jid = Some Tabela
   \<and> throws e_tabela_down Tabela
   \<and> invoked (trace (fst (processMessage_final e_tabela_down 1700000000000
        (text_msg group_jid ''@tabela'') (initial\<lparr>authReady := True\<rparr>))))
      = [AntiLinkMessage, MensagemPix, TabelaTextOnly, Tabela]
   \<and> attempts (trace (fst (processMessage_final e_tabela_down 1700000000000
        (text_msg group_jid ''@tabela'') (initial\<lparr>authReady := True\<rparr>))))
      = [(group_jid, group_init_text)]
   \<and> pendingMessages (fst (processMessage_final e_tabela_down 1700000000000
        (text_msg group_jid ''@tabela'') (initial\<lparr>authReady := True\<rparr>))) = []"
proof -
  let ?m = "text_msg group_jid ''@tabela''"
  have l: "lowerText ?m = js ''@tabela''"
    by (simp add: text_msg_def lowerText_def messageText_def toLowerCase_def lower_unit_def trim_def
      strip_marks_def is_space_def js_def)
  have g: "is_group group_jid" "group_jid \<noteq> []"
    by (simp_all add: is_group_def endsWith_def group_jid_def js_def)
  have tl: "tabela_like (js ''@tabela'')" by (simp add: tabela_like_def)
  have j: "remoteJid ?m = group_jid" "imageMessage ?m = False" by (simp_all add: text_msg_def)
  show ?thesis
    by (simp add: l g tl j route_samples processMessage_final_def and_then_def try_catch_def
        invoke_def log_error_def side_checks_def group_gate_def ensureGroupReady_unfold
        tabela_fallback_def lastAttempt_def SENDER_COOLDOWN_MS_def sendMessage_def Let_def
        e_tabela_down_def initial_def no_op_def)
qed

text \<open>
  Claim C9. The \<open>messages.upsert\<close> handler looks at \<open>messages[0]\<close> only: a batch does what
  the batch of its first message alone does, whatever follows it (the same state, the
  same trace, the same queue), also as a step of a run; an empty batch does nothing.
\<close>

theorem first_message_only:
  "messages_upsert_telao3 e (m # ms) s = messages_upsert_telao3 e [m] s
   \<and> messages_upsert_final e now (m # ms) s = messages_upsert_final e now [m] s
   \<and> step_final (e, MessagesUpsert now (m # ms)) s = step_final (e, MessagesUpsert now [m]) s
   \<and> messages_upsert_telao3 e [] s = (s, False)
   \<and> messages_upsert_final e now [] s = (s, False)"
proof -
  have telao3: "messages_upsert_telao3 e (m # ms) s = messages_upsert_telao3 e [m] s"
    by (simp add: messages_upsert_telao3_def)
  have final: "messages_upsert_final e now (m # ms) s = messages_upsert_final e now [m] s"
    by (simp add: messages_upsert_final_def)
  have run: "step_final (e, MessagesUpsert now (m # ms)) s = step_final (e, MessagesUpsert now [m]) s"
    by (simp add: step_final_def final)
  have none: "messages_upsert_telao3 e [] s = (s, False)" "messages_upsert_final e now [] s = (s, False)"
    by (simp_all add: messages_upsert_telao3_def messages_upsert_final_def)
  from telao3 final run none show ?thesis by blast
qed

text \<open>
  Claim C9 at a batch of \<open>hello\<close> and \<open>@TABELA\<close>: the second message's handler is never
  called.
\<close>

theorem first_message_only_witness:
  "invoked (trace (fst (messages_upsert_telao3 e_ok
      [text_msg user_jid ''hello'', text_msg user_jid ''@TABELA''] (initial\<lparr>authReady := True\<rparr>))))
    = [AntiLinkMessage, MensagemPix]"
proof -
  have c: "conversation (text_msg user_jid ''hello'') = Some (js ''hello'')"
    by (simp add: text_msg_def)
  have "invoked (trace (fst (messages_upsert_telao3 e_ok [text_msg user_jid ''hello''] (initial\<lparr>authReady := True\<rparr>))))
    = [AntiLinkMessage, MensagemPix]"
    using processMessage_telao3_calm(1)[of "text_msg user_jid ''hello''" e_ok "initial\<lparr>authReady := True\<rparr>"]
    by (simp add: messages_upsert_telao3_def lower_of_conversation(4)[OF c] route_samples)
       (simp add: text_msg_def e_ok_def initial_def)
  with first_message_only[of e_ok "text_msg user_jid ''hello''" "[text_msg user_jid ''@TABELA'']"
        "initial\<lparr>authReady := True\<rparr>" 0]
  show ?thesis by simp
qed

lemma qr_budget_fresh:
  "qr_budget (iniciarBot_legacy e s) = count_list (trace s) PrintQR + 1"
  "qr_budget (iniciarBot_final e s) = count_list (trace s) PrintQR + 1"
  "qr_budget (iniciarBot_md1 e s) = count_list (trace s) PrintQR + 1"
  by (simp_all add: qr_budget_def iniciarBot_legacy_def iniciarBot_final_def iniciarBot_md1_def
      syncAuthFromSupabase_def Let_def split: remote.splits)

text \<open>
  Claim C8, as amended. In legacy, md1, md2 and final a session instance prints at most
  one QR code: over any sequence of events handled between one \<open>iniciarBot\<close> and the
  next, the number of printed codes grows by at most one; once \<open>qrSent\<close> is set no
  \<open>connection.update\<close> prints; \<open>iniciarBot\<close> clears \<open>qrSent\<close>, so the first QR signal of the
  new instance is printed again (when it renders). In telao3 there is no such flag:
  every QR signal that renders is printed.
\<close>

theorem qr_once_per_instance:
  "count_list (trace (updates_legacy us (iniciarBot_legacy e s))) PrintQR \<le> count_list (trace s) PrintQR + 1
   \<and> count_list (trace (updates_legacy us (iniciarBot_md1 e s))) PrintQR \<le> count_list (trace s) PrintQR + 1
   \<and> (list_all (\<lambda>x. snd x \<noteq> Start) xs \<longrightarrow>
        count_list (trace (run_final xs (iniciarBot_final e s))) PrintQR \<le> count_list (trace s) PrintQR + 1)
   \<and> (qrSent s \<longrightarrow>
        count_list (trace (connection_update_legacy e u s)) PrintQR = count_list (trace s) PrintQR
        \<and> count_list (trace (connection_update_final e u s)) PrintQR = count_list (trace s) PrintQR)
   \<and> (truthy (qr u) \<and> qrRenders e' \<longrightarrow>
        count_list (trace (connection_update_legacy e' u (iniciarBot_legacy e s))) PrintQR
          = count_list (trace s) PrintQR + 1
        \<and> count_list (trace (connection_update_final e' u (iniciarBot_final e s))) PrintQR
          = count_list (trace s) PrintQR + 1
        \<and> count_list (trace (connection_update_telao3 e' u s)) PrintQR
          = count_list (trace s) PrintQR + 1)"
proof -
  have a: "count_list (trace (updates_legacy us (iniciarBot_legacy e s))) PrintQR \<le> count_list (trace s) PrintQR + 1"
    using count_le_budget[of "updates_legacy us (iniciarBot_legacy e s)"]
      qr_budget_updates_legacy[of us "iniciarBot_legacy e s"] qr_budget_fresh(1)[of e s]
    by linarith
  have a': "count_list (trace (updates_legacy us (iniciarBot_md1 e s))) PrintQR \<le> count_list (trace s) PrintQR + 1"
    using count_le_budget[of "updates_legacy us (iniciarBot_md1 e s)"]
      qr_budget_updates_legacy[of us "iniciarBot_md1 e s"] qr_budget_fresh(3)[of e s]
    by linarith
  have b: "list_all (\<lambda>x. snd x \<noteq> Start) xs \<longrightarrow>
        count_list (trace (run_final xs (iniciarBot_final e s))) PrintQR \<le> count_list (trace s) PrintQR + 1"
  proof
    assume "list_all (\<lambda>x. snd x \<noteq> Start) xs"
    from qr_budget_run_final[OF this, of "iniciarBot_final e s"]
      count_le_budget[of "run_final xs (iniciarBot_final e s)"] qr_budget_fresh(2)[of e s]
    show "count_list (trace (run_final xs (iniciarBot_final e s))) PrintQR \<le> count_list (trace s) PrintQR + 1"
      by linarith
  qed
  have c: "qrSent s \<longrightarrow>
        count_list (trace (connection_update_legacy e u s)) PrintQR = count_list (trace s) PrintQR
        \<and> count_list (trace (connection_update_final e u s)) PrintQR = count_list (trace s) PrintQR"
  proof (cases "connection u")
    case None
    then show ?thesis by (simp add: connection_update_legacy_def connection_update_final_def)
  next
    case (Some k)
    then show ?thesis
      by (cases k)
         (simp_all add: connection_update_legacy_def connection_update_final_def Let_def process_exit_def
          schedule_restart_def remove_auth_def syncAuthToSupabase_def processPendingMessages_def
          processPendingMessages_final_def)
  qed
  have d: "truthy (qr u) \<and> qrRenders e' \<longrightarrow>
        count_list (trace (connection_update_legacy e' u (iniciarBot_legacy e s))) PrintQR
          = count_list (trace s) PrintQR + 1
        \<and> count_list (trace (connection_update_final e' u (iniciarBot_final e s))) PrintQR
          = count_list (trace s) PrintQR + 1
        \<and> count_list (trace (connection_update_telao3 e' u s)) PrintQR
          = count_list (trace s) PrintQR + 1"
  proof (cases "connection u")
    case None
    then show ?thesis
      by (simp add: connection_update_legacy_def connection_update_final_def connection_update_telao3_def
          iniciarBot_legacy_def iniciarBot_final_def syncAuthFromSupabase_def show_qr_def Let_def
          split: remote.splits)
  next
    case (Some k)
    then show ?thesis
      by (cases k)
         (simp_all add: connection_update_legacy_def connection_update_final_def connection_update_telao3_def
          iniciarBot_legacy_def iniciarBot_final_def syncAuthFromSupabase_def show_qr_def Let_def
          process_exit_def schedule_restart_def remove_auth_def syncAuthToSupabase_def
          processPendingMessages_def processPendingMessages_final_def
          split: remote.splits)
  qed
  from a a' b c d show ?thesis by blast
qed

text \<open>Claim C8, as amended, at two QR signals in a row on a fresh session instance.\<close>

theorem qr_once_witness:
  "count_list (trace (updates_legacy [(e_ok, scan_update), (e_ok, scan_update)]
      (iniciarBot_legacy e_ok initial))) PrintQR \<le> 1
   \<and> count_list (trace (run_final [(e_ok, ConnectionUpdate scan_update), (e_ok, ConnectionUpdate scan_update)]
      (iniciarBot_final e_ok initial))) PrintQR \<le> 1
   \<and> count_list (trace (connection_update_final e_ok scan_update (iniciarBot_final e_ok initial))) PrintQR = 1"
proof -
  have h: "truthy (qr scan_update) \<and> qrRenders e_ok"
    by (simp add: scan_update_def truthy_def e_ok_def js_def)
  have i: "count_list (trace initial) PrintQR = 0" by (simp add: initial_def)
  from qr_once_per_instance[of "[(e_ok, scan_update), (e_ok, scan_update)]" e_ok initial
      "[(e_ok, ConnectionUpdate scan_update), (e_ok, ConnectionUpdate scan_update)]" scan_update e_ok] h i
  show ?thesis by simp
qed

text \<open>
  Claim C8 as stated fails on telao3: two QR signals on the same session instance print
  two codes.
\<close>

theorem qr_twice_telao3:
  "count_list (trace (connection_update_telao3 e_ok scan_update
      (connection_update_telao3 e_ok scan_update (iniciarBot_telao3 e_ok initial)))) PrintQR = 2"
  by (simp add: connection_update_telao3_def scan_update_def truthy_def e_ok_def js_def
      iniciarBot_telao3_def initial_def show_qr_def Let_def)

lemma invoked_resend_all [simp]: "invoked (trace (resend_all e ps s)) = invoked (trace s)"
  by (induction ps arbitrary: s) (simp_all add: resend_def sendMessage_def Let_def invoked_append)

lemma invoked_connection_update_telao3:
  "invoked (trace (connection_update_telao3 e u s)) = invoked (trace s)"
proof (cases "connection u")
  case None
  then show ?thesis
    by (simp add: connection_update_telao3_def show_qr_def Let_def invoked_append)
next
  case (Some k)
  then show ?thesis
    by (cases k)
       (simp_all add: connection_update_telao3_def show_qr_def Let_def invoked_append
        process_exit_def schedule_restart_def processPendingMessages_def)
qed

lemma invoked_connection_update_final:
  "invoked (trace (connection_update_final e u s)) = invoked (trace s)"
proof (cases "connection u")
  case None
  then show ?thesis
    by (simp add: connection_update_final_def show_qr_def Let_def invoked_append)
next
  case (Some k)
  then show ?thesis
    by (cases k)
       (simp_all add: connection_update_final_def show_qr_def Let_def invoked_append
        process_exit_def schedule_restart_def processPendingMessages_final_def
        remove_auth_def syncAuthToSupabase_def)
qed

text \<open>
  Claim C10. When \<open>authReady\<close> is false, a batch whose first message is not the bot's own
  only appends the fixed text reply, addressed to the sender, to the queue: the new state
  keeps nothing of the message but the sender, no handler is called then, none is called
  by a later \<open>connection.update\<close> either, and the open transition delivers the queue
  with that reply at its end.
\<close>

theorem not_ready_gate:
  "\<not> authReady s \<and> \<not> fromMe m \<longrightarrow>
     messages_upsert_telao3 e (m # ms) s = (enqueue (remoteJid m, bot_starting_text_telao3) s, False)
     \<and> messages_upsert_final e now (m # ms) s = (enqueue (remoteJid m, bot_starting_text) s, False)
     \<and> invoked (trace (fst (messages_upsert_telao3 e (m # ms) s))) = invoked (trace s)
     \<and> invoked (trace (fst (messages_upsert_final e now (m # ms) s))) = invoked (trace s)
     \<and> invoked (trace (connection_update_telao3 e' u (fst (messages_upsert_telao3 e (m # ms) s))))
         = invoked (trace s)
     \<and> invoked (trace (connection_update_final e' u (fst (messages_upsert_final e now (m # ms) s))))
         = invoked (trace s)
     \<and> (connection u = Some Open \<and> \<not> truthy (qr u) \<longrightarrow>
          attempts (trace (connection_update_telao3 e' u (fst (messages_upsert_telao3 e (m # ms) s))))
            = attempts (trace s) @ pendingMessages s @ [(remoteJid m, bot_starting_text_telao3)]
          \<and> attempts (trace (connection_update_final e' u (fst (messages_upsert_final e now (m # ms) s))))
            = attempts (trace s) @ pendingMessages s @ [(remoteJid m, bot_starting_text)])"
proof
  assume h: "\<not> authReady s \<and> \<not> fromMe m"
  have t: "messages_upsert_telao3 e (m # ms) s = (enqueue (remoteJid m, bot_starting_text_telao3) s, False)"
    and f: "messages_upsert_final e now (m # ms) s = (enqueue (remoteJid m, bot_starting_text) s, False)"
    using h by (simp_all add: messages_upsert_telao3_def messages_upsert_final_def)
  have q: "trace (enqueue p s) = trace s" "pendingMessages (enqueue p s) = pendingMessages s @ [p]" for p
    by (simp_all add: enqueue_def)
  have o: "connection u = Some Open \<and> \<not> truthy (qr u) \<longrightarrow>
          attempts (trace (connection_update_telao3 e' u (enqueue (remoteJid m, bot_starting_text_telao3) s)))
            = attempts (trace s) @ pendingMessages s @ [(remoteJid m, bot_starting_text_telao3)]
          \<and> attempts (trace (connection_update_final e' u (enqueue (remoteJid m, bot_starting_text) s)))
            = attempts (trace s) @ pendingMessages s @ [(remoteJid m, bot_starting_text)]"
    by (simp add: connection_update_telao3_def connection_update_final_def Let_def
        processPendingMessages_def processPendingMessages_final_def syncAuthToSupabase_def
        attempts_resend_all attempts_append enqueue_def)
  show "messages_upsert_telao3 e (m # ms) s = (enqueue (remoteJid m, bot_starting_text_telao3) s, False)
     \<and> messages_upsert_final e now (m # ms) s = (enqueue (remoteJid m, bot_starting_text) s, False)
     \<and> invoked (trace (fst (messages_upsert_telao3 e (m # ms) s))) = invoked (trace s)
     \<and> invoked (trace (fst (messages_upsert_final e now (m # ms) s))) = invoked (trace s)
     \<and> invoked (trace (connection_update_telao3 e' u (fst (messages_upsert_telao3 e (m # ms) s))))
         = invoked (trace s)
     \<and> invoked (trace (connection_update_final e' u (fst (messages_upsert_final e now (m # ms) s))))
         = invoked (trace s)
     \<and> (connection u = Some Open \<and> \<not> truthy (qr u) \<longrightarrow>
          attempts (trace (connection_update_telao3 e' u (fst (messages_upsert_telao3 e (m # ms) s))))
            = attempts (trace s) @ pendingMessages s @ [(remoteJid m, bot_starting_text_telao3)]
          \<and> attempts (trace (connection_update_final e' u (fst (messages_upsert_final e now (m # ms) s))))
            = attempts (trace s) @ pendingMessages s @ [(remoteJid m, bot_starting_text)])"
    using o by (simp add: t f q invoked_connection_update_telao3 invoked_connection_update_final)
qed

text \<open>Claim C10 at \<open>@TABELA\<close> arriving before the first open transition.\<close>

theorem not_ready_gate_witness:
  "messages_upsert_final e_ok 1700000000000 [text_msg user_jid ''@TABELA''] initial
     = (initial\<lparr>pendingMessages := [(user_jid, bot_starting_text)]\<rparr>, False)
   \<and> invoked (trace (connection_update_final e_ok open_update
        (fst (messages_upsert_final e_ok 1700000000000 [text_msg user_jid ''@TABELA''] initial)))) = []
   \<and> attempts (trace (connection_update_final e_ok open_update
        (fst (messages_upsert_final e_ok 1700000000000 [text_msg user_jid ''@TABELA''] initial))))
      = [(user_jid, bot_starting_text)]"
proof -
  have h: "\<not> authReady initial \<and> \<not> fromMe (text_msg user_jid ''@TABELA'')"
    "connection open_update = Some Open \<and> \<not> truthy (qr open_update)"
    by (simp_all add: initial_def text_msg_def open_update_def truthy_def)
  have i: "trace initial = []" "pendingMessages initial = []"
    "enqueue (user_jid, bot_starting_text) initial = initial\<lparr>pendingMessages := [(user_jid, bot_starting_text)]\<rparr>"
    "remoteJid (text_msg user_jid ''@TABELA'') = user_jid"
    by (simp_all add: initial_def enqueue_def text_msg_def)
  note n = not_ready_gate[of initial "text_msg user_jid ''@TABELA''" e_ok "[]" 1700000000000 e_ok open_update]
  let ?s = "fst (messages_upsert_final e_ok 1700000000000 [text_msg user_jid ''@TABELA''] initial)"
  from n h(1) have a1: "messages_upsert_final e_ok 1700000000000 [text_msg user_jid ''@TABELA''] initial
     = (enqueue (remoteJid (text_msg user_jid ''@TABELA''), bot_starting_text) initial, False)"
    by blast
  from n h(1) have a2: "invoked (trace (connection_update_final e_ok open_update ?s)) = invoked (trace initial)"
    by blast
  from n h have a3: "attempts (trace (connection_update_final e_ok open_update ?s))
      = attempts (trace initial) @ pendingMessages initial @ [(remoteJid (text_msg user_jid ''@TABELA''), bot_starting_text)]"
    by blast
  have c1: "messages_upsert_final e_ok 1700000000000 [text_msg user_jid ''@TABELA''] initial
     = (initial\<lparr>pendingMessages := [(user_jid, bot_starting_text)]\<rparr>, False)"
    by (simp only: a1 i)
  have c2: "invoked (trace (connection_update_final e_ok open_update ?s)) = []"
    by (simp only: a2 i invoked.simps)
  have c3: "attempts (trace (connection_update_final e_ok open_update ?s)) = [(user_jid, bot_starting_text)]"
    by (simp only: a3 i attempts.simps append.simps)
  from c1 c2 c3 show ?thesis by blast
qed

section \<open>Properties of the group readiness cache\<close>























end
